theory Spec2Isabelle
  imports Complex_Main "HOL-Library.Sublist"
begin

section \<open>Package must: the failure registry and the abort path\<close>

text \<open>
  The package keeps one piece of mutable state, the slice \<^verbatim>\<open>failureHandlers\<close>. A handler
  is a Go function \<^verbatim>\<open>func(message string, details string)\<close>: it acts on whatever lies
  outside the package (a log, a counter, a monitoring service), here the type \<open>'w\<close>, and
  like every Go function it either returns or panics. Handlers are taken to terminate and
  not to call back into the package.

  The state of a run is the registry, the environment \<open>world\<close> the handlers act on, and
  the record \<open>calls\<close> of every handler invocation made so far, with its arguments. The
  mutex that guards the registry orders concurrent registrations; runs are sequential here.
\<close>

datatype 'w called = Returns 'w | Panics string 'w

type_synonym 'w OnFailure = "string \<Rightarrow> string \<Rightarrow> 'w \<Rightarrow> 'w called"

record 'w state =
  failureHandlers :: "'w OnFailure list"
  calls :: "('w OnFailure \<times> string \<times> string) list"
  world :: 'w

text \<open>
  A call into the package either returns, or panics with a payload. Both carry the state
  in which the call ended.
\<close>

datatype 'w outcome = Return "'w state" | Panic string "'w state"

fun final :: "'w outcome \<Rightarrow> 'w state" where
  "final (Return s) = s"
| "final (Panic p s) = s"

text \<open>Statement sequencing: what follows a call runs only when the call returned.\<close>

fun andThen :: "'w outcome \<Rightarrow> ('w state \<Rightarrow> 'w outcome) \<Rightarrow> 'w outcome" where
  "andThen (Return s) k = k s"
| "andThen (Panic p s) k = Panic p s"

text \<open>The statement \<^verbatim>\<open>if c { act }\<close>.\<close>

definition ifThen :: "bool \<Rightarrow> ('w state \<Rightarrow> 'w outcome) \<Rightarrow> 'w state \<Rightarrow> 'w outcome" where
  "ifThen c act s = (if c then act s else Return s)"

text \<open>\<^verbatim>\<open>failureHandlers = append(failureHandlers, f)\<close>, under the mutex.\<close>

definition RegisterFailureHandler :: "'w OnFailure \<Rightarrow> 'w state \<Rightarrow> 'w outcome" where
  "RegisterFailureHandler f s = Return (s\<lparr>failureHandlers := failureHandlers s @ [f]\<rparr>)"

text \<open>
  The loop \<^verbatim>\<open>for _, f := range failureHandlers { f(message, details) }\<close> of \<^verbatim>\<open>abort\<close>.
  The range expression is evaluated once, so the loop runs over the slice as it was when
  \<^verbatim>\<open>abort\<close> was entered. A handler that panics ends the loop, and the call of \<^verbatim>\<open>abort\<close>,
  with its own payload.
\<close>

fun range_handlers :: "'w OnFailure list \<Rightarrow> string \<Rightarrow> string \<Rightarrow> 'w state \<Rightarrow> 'w outcome" where
  "range_handlers [] message details s = Return s"
| "range_handlers (f # fs) message details s =
     (case f message details (world s) of
        Returns w \<Rightarrow>
          range_handlers fs message details
            (s\<lparr>calls := calls s @ [(f, message, details)], world := w\<rparr>)
      | Panics p w \<Rightarrow>
          Panic p (s\<lparr>calls := calls s @ [(f, message, details)], world := w\<rparr>))"

text \<open>\<^verbatim>\<open>fmt.Sprint\<close> of a single string operand is that string.\<close>

definition Sprint :: "string \<Rightarrow> string" where
  "Sprint details = details"

definition abort :: "string \<Rightarrow> string \<Rightarrow> 'w state \<Rightarrow> 'w outcome" where
  "abort message details s =
     andThen (range_handlers (failureHandlers s) message details s)
       (\<lambda>s'. Panic (message @ '': '' @ Sprint details) s')"

text \<open>
  The environment after the handlers \<open>hs\<close> have been invoked one after the other from
  the environment \<open>w\<close>, when each of them returns in this run; \<open>None\<close> when one of them
  panics.
\<close>

fun handlers_return :: "'w OnFailure list \<Rightarrow> string \<Rightarrow> string \<Rightarrow> 'w \<Rightarrow> 'w option" where
  "handlers_return [] message details w = Some w"
| "handlers_return (h # hs) message details w =
     (case h message details w of
        Returns w' \<Rightarrow> handlers_return hs message details w'
      | Panics p w' \<Rightarrow> None)"

text \<open>
  An expression whose evaluation may panic with a runtime error yields the error's text
  or its value. A statement that evaluates it panics with that text, in the state it was
  entered in, or goes on with the value.
\<close>

fun evaluate :: "string + 'x \<Rightarrow> ('x \<Rightarrow> 'w state \<Rightarrow> 'w outcome) \<Rightarrow> 'w state \<Rightarrow> 'w outcome" where
  "evaluate (Inl err) k s = Panic err s"
| "evaluate (Inr x) k s = k x s"

section \<open>Go values\<close>

subsection \<open>Numbers\<close>

text \<open>
  The numeric checks are generic over \<^verbatim>\<open>T ~int | float64\<close> and use only the comparison
  operators and the constant \<^verbatim>\<open>0\<close>. An integer type is a linear order: a Go \<^verbatim>\<open>int\<close> is
  modelled by its value, of type \<^typ>\<open>int\<close> (the checks do no arithmetic, so nothing
  wraps). A \<^verbatim>\<open>float64\<close> is modelled by what its comparisons see: it is NaN, an
  infinity or a finite number (both zeros are the number 0). The operators follow
  IEEE 754, as Go's do: every ordered comparison with a NaN operand is false, and NaN is
  equal to nothing, itself included.
\<close>

datatype float64 = NaN | NegInf | Finite real | PosInf

fun float64_less :: "float64 \<Rightarrow> float64 \<Rightarrow> bool" where
  "float64_less NaN y = False"
| "float64_less x NaN = False"
| "float64_less x NegInf = False"
| "float64_less NegInf y = True"
| "float64_less PosInf y = False"
| "float64_less (Finite a) PosInf = True"
| "float64_less (Finite a) (Finite b) = (a < b)"

fun float64_less_eq :: "float64 \<Rightarrow> float64 \<Rightarrow> bool" where
  "float64_less_eq NaN y = False"
| "float64_less_eq x NaN = False"
| "float64_less_eq NegInf y = True"
| "float64_less_eq x PosInf = True"
| "float64_less_eq x NegInf = False"
| "float64_less_eq PosInf (Finite b) = False"
| "float64_less_eq (Finite a) (Finite b) = (a \<le> b)"

fun float64_equal :: "float64 \<Rightarrow> float64 \<Rightarrow> bool" where
  "float64_equal NaN y = False"
| "float64_equal x NaN = False"
| "float64_equal x y = (x = y)"

instantiation float64 :: "{ord, zero}"
begin

definition less_float64 :: "float64 \<Rightarrow> float64 \<Rightarrow> bool" where
  "less_float64 x y = float64_less x y"

definition less_eq_float64 :: "float64 \<Rightarrow> float64 \<Rightarrow> bool" where
  "less_eq_float64 x y = float64_less_eq x y"

definition zero_float64 :: float64 where
  "zero_float64 = Finite 0"

instance ..

end

subsection \<open>Comparable types\<close>

text \<open>
  A type argument that satisfies \<^verbatim>\<open>comparable\<close> comes with its \<^verbatim>\<open>==\<close>. Go's \<^verbatim>\<open>==\<close> is not
  equality of values: at \<^verbatim>\<open>float64\<close> a NaN differs from itself, and at an interface type
  (which satisfies \<^verbatim>\<open>comparable\<close>) comparing two operands of the same dynamic type panics
  with a runtime error when that type is a slice, map or function type. So \<^verbatim>\<open>==\<close> at
  the type argument is a parameter \<open>eq\<close> of each generic check that compares: it yields
  the text of the runtime error, or the result. \<^verbatim>\<open>x != y\<close> is the negation of \<^verbatim>\<open>x == y\<close>.
\<close>

type_synonym 'a equality = "'a \<Rightarrow> 'a \<Rightarrow> string + bool"

text \<open>\<^verbatim>\<open>==\<close> at an integer type and at \<^verbatim>\<open>float64\<close>.\<close>

definition eq_int :: "int equality" where
  "eq_int x y = Inr (x = y)"

definition eq_float64 :: "float64 equality" where
  "eq_float64 x y = Inr (float64_equal x y)"

subsection \<open>Pointers\<close>

text \<open>
  A pointer is nil or the address of a variable; \<open>mem\<close>, a parameter of the checks that
  dereference, gives the value each variable holds. Go is memory safe: a pointer that is
  not nil refers to a variable of its element type, so \<open>mem\<close> is total. Dereferencing nil
  panics.
\<close>

type_synonym addr = nat

type_synonym pointer = "addr option"

definition nil_dereference :: string where
  "nil_dereference = ''runtime error: invalid memory address or nil pointer dereference''"

subsection \<open>Interface values\<close>

text \<open>
  A value of type \<^verbatim>\<open>any\<close> is nil or holds a value of a concrete type together with that
  type. The types are the predeclared \<^verbatim>\<open>bool\<close>, \<^verbatim>\<open>int\<close>, \<^verbatim>\<open>float64\<close> and \<^verbatim>\<open>string\<close> (the
  other numeric types behave as these two do), \<^verbatim>\<open>unsafe.Pointer\<close>, the pointer, slice,
  map, channel, function, array and struct types, the empty interface as an element or
  field type, and defined types (\<^verbatim>\<open>type Name T\<close>, given by their qualified name and
  underlying type). A function type is given by the text \<^verbatim>\<open>%T\<close> prints for it, a struct
  type by its fields in order.
\<close>

datatype gotype =
    Tbool
  | Tint
  | Tfloat64
  | Tstring
  | Tptr gotype
  | Tslice gotype
  | Tmap gotype gotype
  | Tany
  | Tnamed string gotype
  | Tchan gotype
  | Tfunc string
  | Tunsafe_Pointer
  | Tarray nat gotype
  | Tstruct "(string \<times> gotype) list"

text \<open>
  A slice is its element type and elements; nil and empty slices are alike to every
  check. A map is its key and element types and either nil or its entries. A channel, a
  function and an \<^verbatim>\<open>unsafe.Pointer\<close> are pointers: nil, or the address of what the runtime
  keeps for them. An array is its element type and elements, a struct its fields with
  their names, types and values. Elements and fields of interface type may be nil, so
  elements and field values are optional values.
\<close>

datatype dynval =
    VBool bool
  | VInt int
  | VFloat64 float64
  | VString string
  | VPtr gotype pointer
  | VSlice gotype "dynval option list"
  | VMap gotype gotype "(dynval option \<times> dynval option) list option"
  | VNamed string dynval
  | VChan gotype pointer
  | VFunc string pointer
  | VUnsafe_Pointer pointer
  | VArray gotype "dynval option list"
  | VStruct "(string \<times> gotype \<times> dynval option) list"

type_synonym any = "dynval option"

fun type_of :: "dynval \<Rightarrow> gotype" where
  "type_of (VBool b) = Tbool"
| "type_of (VInt i) = Tint"
| "type_of (VFloat64 x) = Tfloat64"
| "type_of (VString x) = Tstring"
| "type_of (VPtr t p) = Tptr t"
| "type_of (VSlice t xs) = Tslice t"
| "type_of (VMap k e m) = Tmap k e"
| "type_of (VNamed n v) = Tnamed n (type_of v)"
| "type_of (VChan t p) = Tchan t"
| "type_of (VFunc sig p) = Tfunc sig"
| "type_of (VUnsafe_Pointer p) = Tunsafe_Pointer"
| "type_of (VArray t xs) = Tarray (length xs) t"
| "type_of (VStruct fs) = Tstruct (map (\<lambda>(n, t, x). (n, t)) fs)"

text \<open>The decimal digits of a number, for the length of an array type.\<close>

fun decimal :: "nat \<Rightarrow> string" where
  "decimal n =
     (if n < 10 then [''0123456789'' ! n]
      else decimal (n div 10) @ [''0123456789'' ! (n mod 10)])"

text \<open>What the verb \<^verbatim>\<open>%T\<close> of package fmt prints.\<close>

fun type_name :: "gotype \<Rightarrow> string"
  and field_names :: "(string \<times> gotype) list \<Rightarrow> string" where
  "type_name Tbool = ''bool''"
| "type_name Tint = ''int''"
| "type_name Tfloat64 = ''float64''"
| "type_name Tstring = ''string''"
| "type_name (Tptr t) = ''*'' @ type_name t"
| "type_name (Tslice t) = ''[]'' @ type_name t"
| "type_name (Tmap k e) = ''map['' @ type_name k @ '']'' @ type_name e"
| "type_name Tany = ''interface {}''"
| "type_name (Tnamed n t) = n"
| "type_name (Tchan t) = ''chan '' @ type_name t"
| "type_name (Tfunc sig) = sig"
| "type_name Tunsafe_Pointer = ''unsafe.Pointer''"
| "type_name (Tarray n t) = ''['' @ decimal n @ '']'' @ type_name t"
| "type_name (Tstruct fs) =
     (if fs = [] then ''struct {}'' else ''struct { '' @ field_names fs @ '' }'')"
| "field_names [] = []"
| "field_names ((n, t) # fs) =
     n @ '' '' @ type_name t @ (if fs = [] then [] else ''; '' @ field_names fs)"

definition fmt_T :: "any \<Rightarrow> string" where
  "fmt_T v = (case v of None \<Rightarrow> ''<nil>'' | Some x \<Rightarrow> type_name (type_of x))"

text \<open>
  The two words of an interface value, as \<^verbatim>\<open>NotNil\<close> reads them through
  \<^verbatim>\<open>unsafe.Pointer\<close>: a pointer to the type information and a data word. For a nil
  interface both are nil. The compiler stores a value in the data word itself when its
  type is a pointer, channel, map, function or \<^verbatim>\<open>unsafe.Pointer\<close> type, an array type of
  length one over such a type, or a struct type with one field of such a type. A value
  of any other type is copied by the runtime and the data word is the address of the
  copy, which is never nil. The address of a map that is not nil is the runtime's too.
\<close>

fun isdirectiface :: "gotype \<Rightarrow> bool" where
  "isdirectiface (Tptr t) = True"
| "isdirectiface (Tchan t) = True"
| "isdirectiface (Tmap k e) = True"
| "isdirectiface (Tfunc sig) = True"
| "isdirectiface Tunsafe_Pointer = True"
| "isdirectiface (Tarray n t) = (n = 1 \<and> isdirectiface t)"
| "isdirectiface (Tstruct fs) = (case fs of [(n, t)] \<Rightarrow> isdirectiface t | _ \<Rightarrow> False)"
| "isdirectiface (Tnamed n t) = isdirectiface t"
| "isdirectiface t = False"

datatype unsafe_Pointer = NilWord | Address addr | RuntimeAddress

record eface =
  etype :: "gotype option"
  data :: unsafe_Pointer

fun word_of :: "pointer \<Rightarrow> unsafe_Pointer" where
  "word_of None = NilWord"
| "word_of (Some a) = Address a"

fun data_word :: "dynval \<Rightarrow> unsafe_Pointer" where
  "data_word (VPtr t p) = word_of p"
| "data_word (VChan t p) = word_of p"
| "data_word (VFunc sig p) = word_of p"
| "data_word (VUnsafe_Pointer p) = word_of p"
| "data_word (VMap k e None) = NilWord"
| "data_word (VMap k e (Some m)) = RuntimeAddress"
| "data_word (VArray t [Some x]) = (if isdirectiface t then data_word x else RuntimeAddress)"
| "data_word (VStruct [(n, t, Some x)]) =
     (if isdirectiface t then data_word x else RuntimeAddress)"
| "data_word (VNamed n v) = data_word v"
| "data_word v = RuntimeAddress"

definition eface_of :: "any \<Rightarrow> eface" where
  "eface_of v =
     (case v of
        None \<Rightarrow> \<lparr>etype = None, data = NilWord\<rparr>
      | Some x \<Rightarrow> \<lparr>etype = Some (type_of x), data = data_word x\<rparr>)"

text \<open>
  Three properties of a value that \<^verbatim>\<open>NotNil\<close> depends on: whether its type is a boolean,
  numeric, string or slice type; whether its type is a pointer, map, channel, function or
  \<^verbatim>\<open>unsafe.Pointer\<close> type, the types that have a nil value and are stored in the data
  word; and whether it is the nil value of such a type. Defined types count as their
  underlying types.
\<close>

fun plain :: "dynval \<Rightarrow> bool" where
  "plain (VBool b) = True"
| "plain (VInt i) = True"
| "plain (VFloat64 x) = True"
| "plain (VString x) = True"
| "plain (VSlice t xs) = True"
| "plain (VNamed n v) = plain v"
| "plain v = False"

fun reference :: "dynval \<Rightarrow> bool" where
  "reference (VPtr t p) = True"
| "reference (VMap k e m) = True"
| "reference (VChan t p) = True"
| "reference (VFunc sig p) = True"
| "reference (VUnsafe_Pointer p) = True"
| "reference (VNamed n v) = reference v"
| "reference v = False"

fun is_nil :: "dynval \<Rightarrow> bool" where
  "is_nil (VPtr t p) = (p = None)"
| "is_nil (VMap k e m) = (m = None)"
| "is_nil (VChan t p) = (p = None)"
| "is_nil (VFunc sig p) = (p = None)"
| "is_nil (VUnsafe_Pointer p) = (p = None)"
| "is_nil (VNamed n v) = is_nil v"
| "is_nil v = False"

text \<open>
  The cases of the type switches of \<^verbatim>\<open>NotEmpty\<close> and \<^verbatim>\<open>Empty\<close>: a case matches when
  the dynamic type is identical to the case's type, and binds the value.
\<close>

fun case_map_any_any :: "any \<Rightarrow> (dynval option \<times> dynval option) list option option" where
  "case_map_any_any (Some (VMap k e m)) = (if k = Tany \<and> e = Tany then Some m else None)"
| "case_map_any_any v = None"

fun case_slice_any :: "any \<Rightarrow> dynval option list option" where
  "case_slice_any (Some (VSlice t xs)) = (if t = Tany then Some xs else None)"
| "case_slice_any v = None"

fun case_string :: "any \<Rightarrow> string option" where
  "case_string (Some (VString x)) = Some x"
| "case_string v = None"

text \<open>The builtin \<^verbatim>\<open>len\<close> of a map: a nil map has no entries.\<close>

definition len_map :: "('k \<times> 'e) list option \<Rightarrow> nat" where
  "len_map m = (case m of None \<Rightarrow> 0 | Some kvs \<Rightarrow> length kvs)"

text \<open>
  A type assertion \<^verbatim>\<open>value.(T)\<close>: for a concrete \<^verbatim>\<open>T\<close> it holds when the dynamic type is
  \<^verbatim>\<open>T\<close>; for the empty interface, when the value is not nil.
\<close>

definition type_assert :: "any \<Rightarrow> gotype \<Rightarrow> bool" where
  "type_assert v T =
     (case v of None \<Rightarrow> False | Some x \<Rightarrow> T = Tany \<or> type_of x = T)"

subsection \<open>Maps with keys of a type argument\<close>

text \<open>
  A map \<^verbatim>\<open>map[K]V\<close> is nil or a list of entries, and \<^verbatim>\<open>len\<close> counts them. It may hold
  several entries whose key is NaN, since no NaN equals another. The access \<^verbatim>\<open>m[key]\<close>
  first hashes the key, which panics with a runtime error when the key is an interface
  value that holds a slice, map or function, whatever the map holds; \<open>hash_panic\<close>, a
  parameter, gives that error. It then yields the element of the entry whose key is
  \<^verbatim>\<open>==\<close> to the key, if there is one. The keys of a map can be hashed, and between keys
  that can be hashed \<^verbatim>\<open>==\<close> does not panic.
\<close>

type_synonym ('k, 'v) gomap = "('k \<times> 'v) list option"

fun find_key :: "'k equality \<Rightarrow> ('k \<times> 'v) list \<Rightarrow> 'k \<Rightarrow> string + 'v option" where
  "find_key eq [] key = Inr None"
| "find_key eq ((k, x) # kvs) key =
     (case eq key k of
        Inl err \<Rightarrow> Inl err
      | Inr same \<Rightarrow> if same then Inr (Some x) else find_key eq kvs key)"

definition mapaccess ::
  "('k \<Rightarrow> string option) \<Rightarrow> 'k equality \<Rightarrow> ('k, 'v) gomap \<Rightarrow> 'k \<Rightarrow> string + 'v option" where
  "mapaccess hash_panic eq m key =
     (case hash_panic key of
        Some err \<Rightarrow> Inl err
      | None \<Rightarrow> (case m of None \<Rightarrow> Inr None | Some kvs \<Rightarrow> find_key eq kvs key))"

subsection \<open>Errors and the file system\<close>

text \<open>
  An \<^verbatim>\<open>error\<close> is nil or has a text, the one \<^verbatim>\<open>%v\<close> prints. \<^verbatim>\<open>os.Stat\<close> belongs to the
  standard library and is a parameter of the checks that call it: it reads the
  environment and yields file information or an error. \<^verbatim>\<open>os.IsNotExist\<close> tells the
  does-not-exist error from every other one, and is false of a nil error.
\<close>

type_synonym error = "string option"

datatype oserror = ErrNotExist | ErrPermission | ErrOther string

record FileInfo =
  IsDir :: bool

definition os_IsNotExist :: "oserror option \<Rightarrow> bool" where
  "os_IsNotExist err = (err = Some ErrNotExist)"

fun stat_err :: "oserror + FileInfo \<Rightarrow> oserror option" where
  "stat_err (Inl e) = Some e"
| "stat_err (Inr info) = None"

section \<open>The check functions\<close>

text \<open>
  Each check takes the state as its last argument. A generic check takes what it uses of
  its type arguments as its first arguments: \<^verbatim>\<open>==\<close> as \<open>eq\<close>, the verb \<^verbatim>\<open>%v\<close> as \<open>fmt_v\<close>.
\<close>

definition NotNil :: "any \<Rightarrow> string \<Rightarrow> 'w state \<Rightarrow> 'w outcome" where
  "NotNil v message s =
     andThen (ifThen (v = None) (abort message ''expected a non-nil value, got nil'') s)
       (\<lambda>s. let valuePtr = eface_of v in
          ifThen (data valuePtr = NilWord \<and> etype valuePtr \<noteq> None)
            (abort message
               (''expected a non-nil value, got nil pointer of type '' @ fmt_T v)) s)"

definition NoError :: "error \<Rightarrow> string \<Rightarrow> 'w state \<Rightarrow> 'w outcome" where
  "NoError err message s =
     (case err of
        None \<Rightarrow> Return s
      | Some text \<Rightarrow> abort message (''expected no error, got: '' @ text) s)"

definition Error :: "error \<Rightarrow> string \<Rightarrow> 'w state \<Rightarrow> 'w outcome" where
  "Error err message = ifThen (err = None) (abort message ''expected an error, got nil'')"

definition NotEqual ::
  "'a equality \<Rightarrow> ('a \<Rightarrow> string) \<Rightarrow> 'a \<Rightarrow> 'a \<Rightarrow> string \<Rightarrow> 'w state \<Rightarrow> 'w outcome" where
  "NotEqual eq fmt_v expected v message =
     evaluate (eq expected v)
       (\<lambda>same. ifThen same
          (abort message
             (''expected '' @ fmt_v expected @ '' to not be equal to '' @ fmt_v v)))"

definition Equal ::
  "'a equality \<Rightarrow> ('a \<Rightarrow> string) \<Rightarrow> 'a \<Rightarrow> 'a \<Rightarrow> string \<Rightarrow> 'w state \<Rightarrow> 'w outcome" where
  "Equal eq fmt_v expected v message =
     evaluate (eq expected v)
       (\<lambda>same. ifThen (\<not> same)
          (abort message (''expected '' @ fmt_v expected @ '' to be equal to '' @ fmt_v v)))"

definition True_check :: "bool \<Rightarrow> string \<Rightarrow> 'w state \<Rightarrow> 'w outcome" where
  "True_check v message = ifThen (\<not> v) (abort message ''expected true, got false'')"

definition False_check :: "bool \<Rightarrow> string \<Rightarrow> 'w state \<Rightarrow> 'w outcome" where
  "False_check v message = ifThen v (abort message ''expected false, got true'')"

text \<open>
  \<^verbatim>\<open>value == 0\<close> is equality with 0 at an integer type and at \<^verbatim>\<open>float64\<close> alike: 0 is
  not NaN, and both zeros are the number 0.
\<close>

definition NotZero :: "'n::{ord,zero} \<Rightarrow> string \<Rightarrow> 'w state \<Rightarrow> 'w outcome" where
  "NotZero v message = ifThen (v = 0) (abort message ''expected non-zero value, got zero'')"

definition GreaterThan ::
  "('n::{ord,zero} \<Rightarrow> string) \<Rightarrow> 'n \<Rightarrow> 'n \<Rightarrow> string \<Rightarrow> 'w state \<Rightarrow> 'w outcome" where
  "GreaterThan fmt_v v threshold message =
     ifThen (v \<le> threshold)
       (abort message (''expected '' @ fmt_v v @ '' to be greater than '' @ fmt_v threshold))"

definition LessThan ::
  "('n::{ord,zero} \<Rightarrow> string) \<Rightarrow> 'n \<Rightarrow> 'n \<Rightarrow> string \<Rightarrow> 'w state \<Rightarrow> 'w outcome" where
  "LessThan fmt_v v threshold message =
     ifThen (v \<ge> threshold)
       (abort message (''expected '' @ fmt_v v @ '' to be less than '' @ fmt_v threshold))"

definition GreaterThanOrEqual ::
  "('n::{ord,zero} \<Rightarrow> string) \<Rightarrow> 'n \<Rightarrow> 'n \<Rightarrow> string \<Rightarrow> 'w state \<Rightarrow> 'w outcome" where
  "GreaterThanOrEqual fmt_v v threshold message =
     ifThen (v < threshold)
       (abort message
          (''expected '' @ fmt_v v @ '' to be greater than or equal to '' @ fmt_v threshold))"

definition LessThanOrEqual ::
  "('n::{ord,zero} \<Rightarrow> string) \<Rightarrow> 'n \<Rightarrow> 'n \<Rightarrow> string \<Rightarrow> 'w state \<Rightarrow> 'w outcome" where
  "LessThanOrEqual fmt_v v threshold message =
     ifThen (v > threshold)
       (abort message
          (''expected '' @ fmt_v v @ '' to be less than or equal to '' @ fmt_v threshold))"

definition NotEmpty :: "any \<Rightarrow> string \<Rightarrow> 'w state \<Rightarrow> 'w outcome" where
  "NotEmpty val message s =
     (case case_map_any_any val of
        Some v \<Rightarrow>
          ifThen (len_map v = 0) (abort message ''expected a non-empty map, got empty'') s
      | None \<Rightarrow>
     (case case_slice_any val of
        Some v \<Rightarrow>
          ifThen (length v = 0) (abort message ''expected a non-empty slice, got empty'') s
      | None \<Rightarrow>
     (case case_string val of
        Some v \<Rightarrow>
          ifThen (v = []) (abort message ''expected a non-empty string, got empty'') s
      | None \<Rightarrow>
          abort message (''expected a map, slice or string, got '' @ fmt_T val) s)))"

definition Empty :: "any \<Rightarrow> string \<Rightarrow> 'w state \<Rightarrow> 'w outcome" where
  "Empty val message s =
     (case case_map_any_any val of
        Some v \<Rightarrow>
          ifThen (len_map v \<noteq> 0) (abort message ''expected an empty map, got non-empty'') s
      | None \<Rightarrow>
     (case case_slice_any val of
        Some v \<Rightarrow>
          ifThen (length v \<noteq> 0) (abort message ''expected an empty slice, got non-empty'') s
      | None \<Rightarrow>
     (case case_string val of
        Some v \<Rightarrow>
          ifThen (v \<noteq> []) (abort message ''expected an empty string, got non-empty'') s
      | None \<Rightarrow>
          abort message (''expected a map, slice or string, got '' @ fmt_T val) s)))"

text \<open>
  \<^verbatim>\<open>slices.Contains\<close> of the standard library: a linear search from the front that tests
  \<^verbatim>\<open>v == s[i]\<close> and stops at the first element found; a comparison that panics ends it.
\<close>

fun slices_Contains :: "'a equality \<Rightarrow> 'a list \<Rightarrow> 'a \<Rightarrow> string + bool" where
  "slices_Contains eq [] v = Inr False"
| "slices_Contains eq (x # xs) v =
     (case eq v x of
        Inl err \<Rightarrow> Inl err
      | Inr same \<Rightarrow> if same then Inr True else slices_Contains eq xs v)"

definition Contains ::
  "'a equality \<Rightarrow> ('a \<Rightarrow> string) \<Rightarrow> 'a list \<Rightarrow> 'a \<Rightarrow> string \<Rightarrow> 'w state \<Rightarrow> 'w outcome" where
  "Contains eq fmt_v slice v message =
     evaluate (slices_Contains eq slice v)
       (\<lambda>found s. if found then Return s
          else abort message
                 (''expected slice to contain '' @ fmt_v v @ '', but it does not'') s)"

definition NotContains ::
  "'a equality \<Rightarrow> ('a \<Rightarrow> string) \<Rightarrow> 'a list \<Rightarrow> 'a \<Rightarrow> string \<Rightarrow> 'w state \<Rightarrow> 'w outcome" where
  "NotContains eq fmt_v slice v message =
     evaluate (slices_Contains eq slice v)
       (\<lambda>found s. if \<not> found then Return s
          else abort message
                 (''expected slice to not contain '' @ fmt_v v @ '', but it does'') s)"

definition IsNil :: "any \<Rightarrow> string \<Rightarrow> 'w state \<Rightarrow> 'w outcome" where
  "IsNil v message = ifThen (v \<noteq> None) (abort message ''expected nil, got non-nil'')"

definition IsNotNil :: "any \<Rightarrow> string \<Rightarrow> 'w state \<Rightarrow> 'w outcome" where
  "IsNotNil v message = ifThen (v = None) (abort message ''expected non-nil, got nil'')"

definition FileExists ::
  "('w \<Rightarrow> string \<Rightarrow> oserror + FileInfo) \<Rightarrow> string \<Rightarrow> string \<Rightarrow> 'w state \<Rightarrow> 'w outcome" where
  "FileExists os_Stat path message s =
     ifThen (os_IsNotExist (stat_err (os_Stat (world s) path)))
       (abort message (''expected file '' @ path @ '' to exist, but it does not'')) s"

definition DirExists ::
  "('w \<Rightarrow> string \<Rightarrow> oserror + FileInfo) \<Rightarrow> string \<Rightarrow> string \<Rightarrow> 'w state \<Rightarrow> 'w outcome" where
  "DirExists os_Stat path message s =
     andThen
       (ifThen (os_IsNotExist (stat_err (os_Stat (world s) path)))
          (abort message (''expected directory '' @ path @ '' to exist, but it does not'')) s)
       (\<lambda>s. ifThen
          (case os_Stat (world s) path of Inl err \<Rightarrow> False | Inr info \<Rightarrow> \<not> IsDir info)
          (abort message (''expected '' @ path @ '' to be a directory, but it is not'')) s)"

definition TypeOf :: "gotype \<Rightarrow> any \<Rightarrow> string \<Rightarrow> 'w state \<Rightarrow> 'w outcome" where
  "TypeOf T v message =
     ifThen (\<not> type_assert v T)
       (abort message
          (''expected value of type '' @ type_name (Tptr T) @ '', got '' @ fmt_T v))"

definition TypeOfNot :: "gotype \<Rightarrow> any \<Rightarrow> string \<Rightarrow> 'w state \<Rightarrow> 'w outcome" where
  "TypeOfNot T v message =
     ifThen (type_assert v T)
       (abort message
          (''expected value not of type '' @ type_name (Tptr T) @ '', got '' @ fmt_T v))"

text \<open>
  In the pointer checks the test for nil comes first and ends in \<^verbatim>\<open>abort\<close>; the next
  statement dereferences both pointers and compares what they point to.
\<close>

definition PointsToSame ::
  "'a equality \<Rightarrow> (addr \<Rightarrow> 'a) \<Rightarrow> ('a \<Rightarrow> string) \<Rightarrow> pointer \<Rightarrow> pointer \<Rightarrow> string \<Rightarrow> 'w state
     \<Rightarrow> 'w outcome" where
  "PointsToSame eq mem fmt_v a b message s =
     andThen
       (ifThen (a = None \<or> b = None) (abort message ''expected non-nil pointers, got nil'') s)
       (\<lambda>s. case (a, b) of
          (Some p, Some q) \<Rightarrow>
            evaluate (eq (mem p) (mem q))
              (\<lambda>same. ifThen (\<not> same)
                 (abort message
                    (''expected pointers to point to the same value, got ''
                       @ fmt_v (mem p) @ '' and '' @ fmt_v (mem q)))) s
        | _ \<Rightarrow> Panic nil_dereference s)"

definition PointsToNotSame ::
  "'a equality \<Rightarrow> (addr \<Rightarrow> 'a) \<Rightarrow> ('a \<Rightarrow> string) \<Rightarrow> pointer \<Rightarrow> pointer \<Rightarrow> string \<Rightarrow> 'w state
     \<Rightarrow> 'w outcome" where
  "PointsToNotSame eq mem fmt_v a b message s =
     andThen
       (ifThen (a = None \<or> b = None) (abort message ''expected non-nil pointers, got nil'') s)
       (\<lambda>s. case (a, b) of
          (Some p, Some q) \<Rightarrow>
            evaluate (eq (mem p) (mem q))
              (\<lambda>same. ifThen same
                 (abort message
                    (''expected pointers to point to different values, got ''
                       @ fmt_v (mem p) @ '' and '' @ fmt_v (mem q)))) s
        | _ \<Rightarrow> Panic nil_dereference s)"

definition SliceHas ::
  "'a equality \<Rightarrow> ('a \<Rightarrow> string) \<Rightarrow> 'a list \<Rightarrow> 'a \<Rightarrow> string \<Rightarrow> 'w state \<Rightarrow> 'w outcome" where
  "SliceHas eq fmt_v slice v message =
     evaluate (slices_Contains eq slice v)
       (\<lambda>found. ifThen (\<not> found)
          (abort message (''expected slice to have '' @ fmt_v v @ '', but it does not'')))"

definition SliceNotHas ::
  "'a equality \<Rightarrow> ('a \<Rightarrow> string) \<Rightarrow> 'a list \<Rightarrow> 'a \<Rightarrow> string \<Rightarrow> 'w state \<Rightarrow> 'w outcome" where
  "SliceNotHas eq fmt_v slice v message =
     evaluate (slices_Contains eq slice v)
       (\<lambda>found. ifThen found
          (abort message (''expected slice to not have '' @ fmt_v v @ '', but it does'')))"

text \<open>\<^verbatim>\<open>_, ok := m[key]\<close> asks the map access whether it found an entry.\<close>

definition MapHas ::
  "('k \<Rightarrow> string option) \<Rightarrow> 'k equality \<Rightarrow> ('k \<Rightarrow> string) \<Rightarrow> ('k, 'v) gomap \<Rightarrow> 'k \<Rightarrow> string
     \<Rightarrow> 'w state \<Rightarrow> 'w outcome" where
  "MapHas hash_panic eq fmt_v m key message =
     evaluate (mapaccess hash_panic eq m key)
       (\<lambda>found. ifThen (found = None)
          (abort message (''expected map to have key '' @ fmt_v key @ '', but it does not'')))"

definition MapNotHas ::
  "('k \<Rightarrow> string option) \<Rightarrow> 'k equality \<Rightarrow> ('k \<Rightarrow> string) \<Rightarrow> ('k, 'v) gomap \<Rightarrow> 'k \<Rightarrow> string
     \<Rightarrow> 'w state \<Rightarrow> 'w outcome" where
  "MapNotHas hash_panic eq fmt_v m key message =
     evaluate (mapaccess hash_panic eq m key)
       (\<lambda>found. ifThen (found \<noteq> None)
          (abort message (''expected map to not have key '' @ fmt_v key @ '', but it does'')))"

definition MapNotEmpty :: "('k, 'v) gomap \<Rightarrow> string \<Rightarrow> 'w state \<Rightarrow> 'w outcome" where
  "MapNotEmpty m message =
     ifThen (len_map m = 0) (abort message ''expected map to be non-empty, but it is empty'')"

definition MapEmpty :: "('k, 'v) gomap \<Rightarrow> string \<Rightarrow> 'w state \<Rightarrow> 'w outcome" where
  "MapEmpty m message =
     ifThen (len_map m \<noteq> 0) (abort message ''expected map to be empty, but it is not'')"

definition IsEmpty :: "'a list \<Rightarrow> string \<Rightarrow> 'w state \<Rightarrow> 'w outcome" where
  "IsEmpty slice message =
     ifThen (length slice \<noteq> 0) (abort message ''expected slice to be empty, but it is not'')"

text \<open>A call passes when it returns, and fails when it panics.\<close>

fun passes :: "'w outcome \<Rightarrow> bool" where
  "passes (Return s) = True"
| "passes (Panic p s) = False"

section \<open>The package as a whole\<close>

text \<open>
  What the generic checks need from the rest of the program: \<^verbatim>\<open>==\<close> and \<^verbatim>\<open>%v\<close> at the type
  arguments, the hashing of map keys, the memory the pointers refer to, and \<^verbatim>\<open>os.Stat\<close>.
\<close>

record ('w, 'a, 'n, 'k) runtime =
  eq_comparable :: "'a equality"
  fmt_comparable :: "'a \<Rightarrow> string"
  fmt_number :: "'n \<Rightarrow> string"
  hash_key :: "'k \<Rightarrow> string option"
  eq_key :: "'k equality"
  fmt_key :: "'k \<Rightarrow> string"
  memory :: "addr \<Rightarrow> 'a"
  stat :: "'w \<Rightarrow> string \<Rightarrow> oserror + FileInfo"

text \<open>
  The exported check functions, one constructor for a call of each, at type arguments
  \<open>'a\<close> (comparable), \<open>'n\<close> (a number type), \<open>'k\<close> and \<open>'v\<close> (the keys and elements of a
  map).
\<close>

datatype ('a, 'n, 'k, 'v) check =
    Call_NotNil any string
  | Call_NoError error string
  | Call_Error error string
  | Call_NotEqual 'a 'a string
  | Call_Equal 'a 'a string
  | Call_True bool string
  | Call_False bool string
  | Call_NotZero 'n string
  | Call_GreaterThan 'n 'n string
  | Call_LessThan 'n 'n string
  | Call_GreaterThanOrEqual 'n 'n string
  | Call_LessThanOrEqual 'n 'n string
  | Call_NotEmpty any string
  | Call_Empty any string
  | Call_Contains "'a list" 'a string
  | Call_NotContains "'a list" 'a string
  | Call_IsNil any string
  | Call_IsNotNil any string
  | Call_FileExists string string
  | Call_DirExists string string
  | Call_TypeOf gotype any string
  | Call_TypeOfNot gotype any string
  | Call_PointsToSame pointer pointer string
  | Call_PointsToNotSame pointer pointer string
  | Call_SliceHas "'a list" 'a string
  | Call_SliceNotHas "'a list" 'a string
  | Call_MapHas "('k, 'v) gomap" 'k string
  | Call_MapNotHas "('k, 'v) gomap" 'k string
  | Call_MapNotEmpty "('k, 'v) gomap" string
  | Call_MapEmpty "('k, 'v) gomap" string
  | Call_IsEmpty "'a list" string

primrec message_of :: "('a, 'n, 'k, 'v) check \<Rightarrow> string" where
  "message_of (Call_NotNil v m) = m"
| "message_of (Call_NoError err m) = m"
| "message_of (Call_Error err m) = m"
| "message_of (Call_NotEqual x y m) = m"
| "message_of (Call_Equal x y m) = m"
| "message_of (Call_True b m) = m"
| "message_of (Call_False b m) = m"
| "message_of (Call_NotZero v m) = m"
| "message_of (Call_GreaterThan v t m) = m"
| "message_of (Call_LessThan v t m) = m"
| "message_of (Call_GreaterThanOrEqual v t m) = m"
| "message_of (Call_LessThanOrEqual v t m) = m"
| "message_of (Call_NotEmpty v m) = m"
| "message_of (Call_Empty v m) = m"
| "message_of (Call_Contains xs v m) = m"
| "message_of (Call_NotContains xs v m) = m"
| "message_of (Call_IsNil v m) = m"
| "message_of (Call_IsNotNil v m) = m"
| "message_of (Call_FileExists path m) = m"
| "message_of (Call_DirExists path m) = m"
| "message_of (Call_TypeOf T v m) = m"
| "message_of (Call_TypeOfNot T v m) = m"
| "message_of (Call_PointsToSame a b m) = m"
| "message_of (Call_PointsToNotSame a b m) = m"
| "message_of (Call_SliceHas xs v m) = m"
| "message_of (Call_SliceNotHas xs v m) = m"
| "message_of (Call_MapHas mp k m) = m"
| "message_of (Call_MapNotHas mp k m) = m"
| "message_of (Call_MapNotEmpty mp m) = m"
| "message_of (Call_MapEmpty mp m) = m"
| "message_of (Call_IsEmpty xs m) = m"

primrec run ::
  "('w, 'a, 'n::{ord,zero}, 'k) runtime \<Rightarrow> ('a, 'n, 'k, 'v) check \<Rightarrow> 'w state \<Rightarrow> 'w outcome" where
  "run rt (Call_NotNil v m) = NotNil v m"
| "run rt (Call_NoError err m) = NoError err m"
| "run rt (Call_Error err m) = Error err m"
| "run rt (Call_NotEqual x y m) = NotEqual (eq_comparable rt) (fmt_comparable rt) x y m"
| "run rt (Call_Equal x y m) = Equal (eq_comparable rt) (fmt_comparable rt) x y m"
| "run rt (Call_True b m) = True_check b m"
| "run rt (Call_False b m) = False_check b m"
| "run rt (Call_NotZero v m) = NotZero v m"
| "run rt (Call_GreaterThan v t m) = GreaterThan (fmt_number rt) v t m"
| "run rt (Call_LessThan v t m) = LessThan (fmt_number rt) v t m"
| "run rt (Call_GreaterThanOrEqual v t m) = GreaterThanOrEqual (fmt_number rt) v t m"
| "run rt (Call_LessThanOrEqual v t m) = LessThanOrEqual (fmt_number rt) v t m"
| "run rt (Call_NotEmpty v m) = NotEmpty v m"
| "run rt (Call_Empty v m) = Empty v m"
| "run rt (Call_Contains xs v m) = Contains (eq_comparable rt) (fmt_comparable rt) xs v m"
| "run rt (Call_NotContains xs v m) =
     NotContains (eq_comparable rt) (fmt_comparable rt) xs v m"
| "run rt (Call_IsNil v m) = IsNil v m"
| "run rt (Call_IsNotNil v m) = IsNotNil v m"
| "run rt (Call_FileExists path m) = FileExists (stat rt) path m"
| "run rt (Call_DirExists path m) = DirExists (stat rt) path m"
| "run rt (Call_TypeOf T v m) = TypeOf T v m"
| "run rt (Call_TypeOfNot T v m) = TypeOfNot T v m"
| "run rt (Call_PointsToSame a b m) =
     PointsToSame (eq_comparable rt) (memory rt) (fmt_comparable rt) a b m"
| "run rt (Call_PointsToNotSame a b m) =
     PointsToNotSame (eq_comparable rt) (memory rt) (fmt_comparable rt) a b m"
| "run rt (Call_SliceHas xs v m) = SliceHas (eq_comparable rt) (fmt_comparable rt) xs v m"
| "run rt (Call_SliceNotHas xs v m) =
     SliceNotHas (eq_comparable rt) (fmt_comparable rt) xs v m"
| "run rt (Call_MapHas mp k m) = MapHas (hash_key rt) (eq_key rt) (fmt_key rt) mp k m"
| "run rt (Call_MapNotHas mp k m) = MapNotHas (hash_key rt) (eq_key rt) (fmt_key rt) mp k m"
| "run rt (Call_MapNotEmpty mp m) = MapNotEmpty mp m"
| "run rt (Call_MapEmpty mp m) = MapEmpty mp m"
| "run rt (Call_IsEmpty xs m) = IsEmpty xs m"

text \<open>
  An operation of the package is a registration or a check. A program performs
  operations one after the other; after a panic that it recovers from, it goes on in
  the state the panic left.
\<close>

datatype ('w, 'a, 'n, 'k, 'v) operation =
    Register "'w OnFailure"
  | Check "('a, 'n, 'k, 'v) check"

primrec perform ::
  "('w, 'a, 'n::{ord,zero}, 'k) runtime \<Rightarrow> ('w, 'a, 'n, 'k, 'v) operation \<Rightarrow> 'w state
     \<Rightarrow> 'w outcome" where
  "perform rt (Register f) s = RegisterFailureHandler f s"
| "perform rt (Check c) s = run rt c s"

fun lifetime ::
  "('w, 'a, 'n::{ord,zero}, 'k) runtime \<Rightarrow> ('w, 'a, 'n, 'k, 'v) operation list \<Rightarrow> 'w state
     \<Rightarrow> 'w state" where
  "lifetime rt [] s = s"
| "lifetime rt (x # xs) s = lifetime rt xs (final (perform rt x s))"

section \<open>The condition of each check\<close>

text \<open>
  What a check decides, stated apart from how it runs. The condition of a call, in an
  environment, holds, or is violated, and then the call has details to report, or
  cannot be decided because a comparison or a map access panics with a runtime error.
\<close>

datatype verdict = Holds | Violated string | Breaks string

definition decide :: "bool \<Rightarrow> string \<Rightarrow> verdict" where
  "decide ok details = (if ok then Holds else Violated details)"

fun deciding :: "string + 'x \<Rightarrow> ('x \<Rightarrow> verdict) \<Rightarrow> verdict" where
  "deciding (Inl err) k = Breaks err"
| "deciding (Inr x) k = k x"

text \<open>
  The containers \<^verbatim>\<open>NotEmpty\<close> and \<^verbatim>\<open>Empty\<close> measure: the name and the length of a value
  whose dynamic type is \<^verbatim>\<open>map[any]any\<close>, \<^verbatim>\<open>[]any\<close> or \<^verbatim>\<open>string\<close>, and nothing for any other
  value.
\<close>

fun measured :: "any \<Rightarrow> (string \<times> nat) option" where
  "measured (Some (VMap k e m)) =
     (if k = Tany \<and> e = Tany then Some (''map'', len_map m) else None)"
| "measured (Some (VSlice t xs)) = (if t = Tany then Some (''slice'', length xs) else None)"
| "measured (Some (VString x)) = Some (''string'', length x)"
| "measured v = None"

primrec condition ::
  "('w, 'a, 'n::{ord,zero}, 'k) runtime \<Rightarrow> 'w \<Rightarrow> ('a, 'n, 'k, 'v) check \<Rightarrow> verdict" where
  "condition rt w (Call_NotNil v m) =
     (case v of
        None \<Rightarrow> Violated ''expected a non-nil value, got nil''
      | Some x \<Rightarrow>
          decide (data_word x \<noteq> NilWord)
            (''expected a non-nil value, got nil pointer of type '' @ type_name (type_of x)))"
| "condition rt w (Call_NoError err m) =
     (case err of None \<Rightarrow> Holds | Some text \<Rightarrow> Violated (''expected no error, got: '' @ text))"
| "condition rt w (Call_Error err m) = decide (err \<noteq> None) ''expected an error, got nil''"
| "condition rt w (Call_NotEqual x y m) =
     deciding (eq_comparable rt x y)
       (\<lambda>same. decide (\<not> same)
          (''expected '' @ fmt_comparable rt x @ '' to not be equal to '' @ fmt_comparable rt y))"
| "condition rt w (Call_Equal x y m) =
     deciding (eq_comparable rt x y)
       (\<lambda>same. decide same
          (''expected '' @ fmt_comparable rt x @ '' to be equal to '' @ fmt_comparable rt y))"
| "condition rt w (Call_True b m) = decide b ''expected true, got false''"
| "condition rt w (Call_False b m) = decide (\<not> b) ''expected false, got true''"
| "condition rt w (Call_NotZero v m) = decide (v \<noteq> 0) ''expected non-zero value, got zero''"
| "condition rt w (Call_GreaterThan v t m) =
     decide (\<not> v \<le> t)
       (''expected '' @ fmt_number rt v @ '' to be greater than '' @ fmt_number rt t)"
| "condition rt w (Call_LessThan v t m) =
     decide (\<not> v \<ge> t)
       (''expected '' @ fmt_number rt v @ '' to be less than '' @ fmt_number rt t)"
| "condition rt w (Call_GreaterThanOrEqual v t m) =
     decide (\<not> v < t)
       (''expected '' @ fmt_number rt v @ '' to be greater than or equal to ''
          @ fmt_number rt t)"
| "condition rt w (Call_LessThanOrEqual v t m) =
     decide (\<not> v > t)
       (''expected '' @ fmt_number rt v @ '' to be less than or equal to '' @ fmt_number rt t)"
| "condition rt w (Call_NotEmpty v m) =
     (case measured v of
        Some (kind, n) \<Rightarrow> decide (0 < n) (''expected a non-empty '' @ kind @ '', got empty'')
      | None \<Rightarrow> Violated (''expected a map, slice or string, got '' @ fmt_T v))"
| "condition rt w (Call_Empty v m) =
     (case measured v of
        Some (kind, n) \<Rightarrow> decide (n = 0) (''expected an empty '' @ kind @ '', got non-empty'')
      | None \<Rightarrow> Violated (''expected a map, slice or string, got '' @ fmt_T v))"
| "condition rt w (Call_Contains xs v m) =
     deciding (slices_Contains (eq_comparable rt) xs v)
       (\<lambda>found. decide found
          (''expected slice to contain '' @ fmt_comparable rt v @ '', but it does not''))"
| "condition rt w (Call_NotContains xs v m) =
     deciding (slices_Contains (eq_comparable rt) xs v)
       (\<lambda>found. decide (\<not> found)
          (''expected slice to not contain '' @ fmt_comparable rt v @ '', but it does''))"
| "condition rt w (Call_IsNil v m) = decide (v = None) ''expected nil, got non-nil''"
| "condition rt w (Call_IsNotNil v m) = decide (v \<noteq> None) ''expected non-nil, got nil''"
| "condition rt w (Call_FileExists path m) =
     decide (stat rt w path \<noteq> Inl ErrNotExist)
       (''expected file '' @ path @ '' to exist, but it does not'')"
| "condition rt w (Call_DirExists path m) =
     (case stat rt w path of
        Inl err \<Rightarrow>
          decide (err \<noteq> ErrNotExist)
            (''expected directory '' @ path @ '' to exist, but it does not'')
      | Inr info \<Rightarrow>
          decide (IsDir info) (''expected '' @ path @ '' to be a directory, but it is not''))"
| "condition rt w (Call_TypeOf T v m) =
     decide (type_assert v T)
       (''expected value of type *'' @ type_name T @ '', got '' @ fmt_T v)"
| "condition rt w (Call_TypeOfNot T v m) =
     decide (\<not> type_assert v T)
       (''expected value not of type *'' @ type_name T @ '', got '' @ fmt_T v)"
| "condition rt w (Call_PointsToSame a b m) =
     (case (a, b) of
        (Some p, Some q) \<Rightarrow>
          deciding (eq_comparable rt (memory rt p) (memory rt q))
            (\<lambda>same. decide same
               (''expected pointers to point to the same value, got ''
                  @ fmt_comparable rt (memory rt p) @ '' and ''
                  @ fmt_comparable rt (memory rt q)))
      | _ \<Rightarrow> Violated ''expected non-nil pointers, got nil'')"
| "condition rt w (Call_PointsToNotSame a b m) =
     (case (a, b) of
        (Some p, Some q) \<Rightarrow>
          deciding (eq_comparable rt (memory rt p) (memory rt q))
            (\<lambda>same. decide (\<not> same)
               (''expected pointers to point to different values, got ''
                  @ fmt_comparable rt (memory rt p) @ '' and ''
                  @ fmt_comparable rt (memory rt q)))
      | _ \<Rightarrow> Violated ''expected non-nil pointers, got nil'')"
| "condition rt w (Call_SliceHas xs v m) =
     deciding (slices_Contains (eq_comparable rt) xs v)
       (\<lambda>found. decide found
          (''expected slice to have '' @ fmt_comparable rt v @ '', but it does not''))"
| "condition rt w (Call_SliceNotHas xs v m) =
     deciding (slices_Contains (eq_comparable rt) xs v)
       (\<lambda>found. decide (\<not> found)
          (''expected slice to not have '' @ fmt_comparable rt v @ '', but it does''))"
| "condition rt w (Call_MapHas mp k m) =
     deciding (mapaccess (hash_key rt) (eq_key rt) mp k)
       (\<lambda>found. decide (found \<noteq> None)
          (''expected map to have key '' @ fmt_key rt k @ '', but it does not''))"
| "condition rt w (Call_MapNotHas mp k m) =
     deciding (mapaccess (hash_key rt) (eq_key rt) mp k)
       (\<lambda>found. decide (found = None)
          (''expected map to not have key '' @ fmt_key rt k @ '', but it does''))"
| "condition rt w (Call_MapNotEmpty mp m) =
     decide (0 < len_map mp) ''expected map to be non-empty, but it is empty''"
| "condition rt w (Call_MapEmpty mp m) =
     decide (len_map mp = 0) ''expected map to be empty, but it is not''"
| "condition rt w (Call_IsEmpty xs m) =
     decide (xs = []) ''expected slice to be empty, but it is not''"


text \<open>
  The outcome that belongs to a verdict, for a call with message \<open>m\<close> entered in state
  \<open>s\<close>: a return in that state, what \<^verbatim>\<open>abort\<close> does in that state with the message and the
  details, or a panic with the runtime error in that state.
\<close>

fun enact :: "string \<Rightarrow> verdict \<Rightarrow> 'w state \<Rightarrow> 'w outcome" where
  "enact m Holds s = Return s"
| "enact m (Violated details) s = abort m details s"
| "enact m (Breaks err) s = Panic err s"

section \<open>Example programs\<close>

text \<open>
  A program whose environment is a counter: \<open>count\<close> is a handler that increments it,
  \<open>boom\<close> a handler that panics. \<open>start\<close> is the state at program start, with an empty
  registry. \<open>show_int\<close> prints an integer as \<^verbatim>\<open>%v\<close> does. \<open>cells\<close> is a memory of integers,
  and \<open>root_only\<close> a file system with one entry that may not be examined.
\<close>

definition count :: "nat OnFailure" where
  "count message details w = Returns (Suc w)"


definition start :: "nat state" where
  "start = \<lparr>failureHandlers = [], calls = [], world = 0\<rparr>"

definition show_int :: "int \<Rightarrow> string" where
  "show_int i = (if i < 0 then ''-'' @ decimal (nat (- i)) else decimal (nat i))"

definition cells :: "addr \<Rightarrow> int" where
  "cells a = (if a = 1 then 42 else 7)"

definition root_only :: "nat \<Rightarrow> string \<Rightarrow> oserror + FileInfo" where
  "root_only w path = (if path = ''/root/secret'' then Inl ErrPermission else Inl ErrNotExist)"

text \<open>
  The values of type \<^verbatim>\<open>any\<close> whose dynamic type is \<^verbatim>\<open>int\<close> or \<^verbatim>\<open>[]int\<close>, with the \<^verbatim>\<open>==\<close> of
  \<^verbatim>\<open>any\<close> on them: two integers compare by value, an integer and a slice differ, and
  comparing two slices panics, as hashing one does. \<open>boxes\<close> is a memory in which every
  variable of type \<^verbatim>\<open>any\<close> holds a slice, and \<open>boxed_program\<close> the rest of a program whose
  type arguments are \<^verbatim>\<open>any\<close> and \<^verbatim>\<open>int\<close>.
\<close>

datatype boxed = Number int | Numbers "int list"

fun eq_boxed :: "boxed equality" where
  "eq_boxed (Number i) (Number j) = Inr (i = j)"
| "eq_boxed (Numbers xs) (Numbers ys) = Inl ''runtime error: comparing uncomparable type []int''"
| "eq_boxed x y = Inr False"


fun spaced :: "string list \<Rightarrow> string" where
  "spaced [] = []"
| "spaced [x] = x"
| "spaced (x # y # zs) = x @ '' '' @ spaced (y # zs)"

fun show_boxed :: "boxed \<Rightarrow> string" where
  "show_boxed (Number i) = show_int i"
| "show_boxed (Numbers xs) = ''['' @ spaced (map show_int xs) @ '']''"

definition boxes :: "addr \<Rightarrow> boxed" where
  "boxes a = Numbers [1]"


section \<open>The abort path\<close>

lemma ifThen_True [simp]: "ifThen True act s = act s"
  by (simp add: ifThen_def)

lemma ifThen_False [simp]: "ifThen False act s = Return s"
  by (simp add: ifThen_def)

lemma range_handlers_registry:
  "failureHandlers (final (range_handlers fs m d s)) = failureHandlers s"
  by (induction fs arbitrary: s) (auto split: called.splits)



text \<open>One of the two always applies: either every handler returns, or a first one panics.\<close>

lemma handlers_return_cases:
  "(\<exists>w'. handlers_return hs m d w = Some w')
   \<or> (\<exists>pre h post w1 p w2. hs = pre @ h # post \<and> handlers_return pre m d w = Some w1
        \<and> h m d w1 = Panics p w2)"
proof (induction hs arbitrary: w)
  case Nil
  then show ?case by simp
next
  case (Cons f fs)
  show ?case
  proof (cases "f m d w")
    case (Panics p w2)
    then have "f # fs = [] @ f # fs \<and> handlers_return [] m d w = Some w
        \<and> f m d w = Panics p w2"
      by simp
    then show ?thesis by blast
  next
    case (Returns w1)
    from Cons.IH [of w1] show ?thesis
    proof
      assume "\<exists>w'. handlers_return fs m d w1 = Some w'"
      with Returns show ?thesis by simp
    next
      assume "\<exists>pre h post w2 p w3. fs = pre @ h # post
          \<and> handlers_return pre m d w1 = Some w2 \<and> h m d w2 = Panics p w3"
      then obtain pre h post w2 p w3 where "fs = pre @ h # post"
        "handlers_return pre m d w1 = Some w2" "h m d w2 = Panics p w3"
        by blast
      with Returns have "f # fs = (f # pre) @ h # post
          \<and> handlers_return (f # pre) m d w = Some w2 \<and> h m d w2 = Panics p w3"
        by simp
      then show ?thesis by blast
    qed
  qed
qed

lemma abort_panics: "\<exists>p s'. abort m d s = Panic p s'"
  unfolding abort_def by (cases "range_handlers (failureHandlers s) m d s") auto


lemma not_passes_abort [simp]: "\<not> passes (abort m d s)"
  using abort_panics [of m d s] by auto

lemma andThen_abort [simp]: "andThen (abort m d s) k = abort m d s"
  using abort_panics [of m d s] by auto

lemma abort_registry: "failureHandlers (final (abort m d s)) = failureHandlers s"
  unfolding abort_def using range_handlers_registry [of "failureHandlers s" m d s]
  by (cases "range_handlers (failureHandlers s) m d s") auto






text \<open>
  The end-to-end test of the specification: with a counting handler registered,
  \<^verbatim>\<open>True(false, "x")\<close> invokes it once and panics with the message and details.
\<close>

lemma end_to_end:
  "andThen (RegisterFailureHandler count start) (True_check False ''x'')
     = Panic ''x: expected true, got false''
         \<lparr>failureHandlers = [count], calls = [(count, ''x'', ''expected true, got false'')],
          world = 1\<rparr>"
  by (simp add: RegisterFailureHandler_def start_def True_check_def abort_def count_def
      Sprint_def)

section \<open>Nil values\<close>

lemma is_nil_data_word: "is_nil v \<Longrightarrow> data_word v = NilWord"
  by (induction v rule: is_nil.induct) auto

lemma plain_data_word: "plain v \<Longrightarrow> data_word v \<noteq> NilWord"
  by (induction v rule: plain.induct) auto

lemma boxed_data_word: "\<not> isdirectiface (type_of v) \<Longrightarrow> data_word v = RuntimeAddress"
  by (induction v rule: data_word.induct) auto

lemma reference_data_word: "reference v \<Longrightarrow> \<not> is_nil v \<Longrightarrow> data_word v \<noteq> NilWord"
  by (induction v rule: reference.induct) (auto split: option.splits)

lemma NotNil_nil_interface:
  "NotNil None m s = abort m ''expected a non-nil value, got nil'' s"
  by (simp add: NotNil_def)

text \<open>What \<^verbatim>\<open>NotNil\<close> does with a value is decided by the data word alone.\<close>

lemma NotNil_Some:
  "NotNil (Some v) m s =
     (if data_word v = NilWord
      then abort m
             (''expected a non-nil value, got nil pointer of type '' @ type_name (type_of v)) s
      else Return s)"
  by (simp add: NotNil_def eface_of_def fmt_T_def)

text \<open>
  C2, as amended. \<^verbatim>\<open>NotNil\<close> aborts on the nil interface, and on every boxed nil: the
  nil value of a pointer type \<^verbatim>\<open>*T\<close>, and also of a map, channel, function or
  \<^verbatim>\<open>unsafe.Pointer\<close> type, with details that name the type and differ from the details
  of the nil interface; a call that aborts does not pass. It returns, in the state it
  was entered in, for every value of a boolean, numeric, string or slice type, indeed
  for every value whose type is not one the compiler stores in the data word, and for
  every pointer, map, channel or function that is not nil, so for a pointer bound to a
  target.
\<close>

theorem NotNil_outcomes:
  "NotNil None message s = abort message ''expected a non-nil value, got nil'' s
   \<and> (is_nil v \<longrightarrow>
        NotNil (Some v) message s
          = abort message
              (''expected a non-nil value, got nil pointer of type '' @ type_name (type_of v)) s)
   \<and> NotNil (Some (VPtr T None)) message s
        = abort message (''expected a non-nil value, got nil pointer of type *'' @ type_name T) s
   \<and> ''expected a non-nil value, got nil''
        \<noteq> ''expected a non-nil value, got nil pointer of type '' @ type_name (type_of v)
   \<and> \<not> passes (abort message details s)
   \<and> (plain v \<longrightarrow> NotNil (Some v) message s = Return s)
   \<and> (\<not> isdirectiface (type_of v) \<longrightarrow> NotNil (Some v) message s = Return s)
   \<and> (reference v \<and> \<not> is_nil v \<longrightarrow> NotNil (Some v) message s = Return s)
   \<and> NotNil (Some (VPtr T (Some a))) message s = Return s"
  by (simp add: NotNil_nil_interface NotNil_Some is_nil_data_word plain_data_word
      boxed_data_word reference_data_word)

text \<open>
  The amended C2 at a nil pointer of a defined pointer type, at a string and a slice of
  strings, and at a map that is not nil.
\<close>

theorem NotNil_outcomes_witness:
  "is_nil (VNamed ''main.P'' (VPtr Tstring None))
   \<and> NotNil (Some (VNamed ''main.P'' (VPtr Tstring None))) ''m'' start
       = Panic ''m: expected a non-nil value, got nil pointer of type main.P'' start
   \<and> plain (VString ''not nil'') \<and> plain (VSlice Tstring [Some (VString ''foo'')])
   \<and> NotNil (Some (VString ''not nil'')) ''m'' start = Return start
   \<and> NotNil (Some (VSlice Tstring [Some (VString ''foo'')])) ''m'' start = Return start
   \<and> reference (VMap Tstring Tint (Some [])) \<and> \<not> is_nil (VMap Tstring Tint (Some []))
   \<and> NotNil (Some (VMap Tstring Tint (Some []))) ''m'' start = Return start"
  using NotNil_outcomes [of "''m''" start "VNamed ''main.P'' (VPtr Tstring None)"]
    NotNil_outcomes [of "''m''" start "VString ''not nil''"]
    NotNil_outcomes [of "''m''" start "VSlice Tstring [Some (VString ''foo'')]"]
    NotNil_outcomes [of "''m''" start "VMap Tstring Tint (Some [])"]
  by (simp add: abort_def start_def Sprint_def)

text \<open>
  C2 as stated fails at a nil map: \<^verbatim>\<open>map[string]int(nil)\<close> is a concrete value that is
  not a pointer, and \<^verbatim>\<open>NotNil\<close> panics on it, calling it a nil pointer.
\<close>

theorem NotNil_nil_map:
  "NotNil (Some (VMap Tstring Tint None)) ''m'' start
     = Panic ''m: expected a non-nil value, got nil pointer of type map[string]int'' start"
  by (simp add: NotNil_Some abort_def start_def Sprint_def)

text \<open>
  A struct with a single pointer field is stored in the data word as its field is, so
  \<^verbatim>\<open>NotNil\<close> panics on the zero value of \<^verbatim>\<open>struct { p *int }\<close> as well, although a struct has
  no nil value.
\<close>

lemma NotNil_single_pointer_struct:
  "NotNil (Some (VStruct [(''p'', Tptr Tint, Some (VPtr Tint None))])) ''m'' start
     = Panic ''m: expected a non-nil value, got nil pointer of type struct { p *int }'' start"
  by (simp add: NotNil_Some abort_def start_def Sprint_def)


section \<open>Emptiness\<close>

lemma case_switch_unsupported:
  "type_of v \<notin> {Tmap Tany Tany, Tslice Tany, Tstring} \<Longrightarrow>
   case_map_any_any (Some v) = None \<and> case_slice_any (Some v) = None
     \<and> case_string (Some v) = None"
  by (cases v) auto

lemma NotEmpty_unsupported:
  "type_of v \<notin> {Tmap Tany Tany, Tslice Tany, Tstring} \<Longrightarrow>
   NotEmpty (Some v) m s
     = abort m (''expected a map, slice or string, got '' @ type_name (type_of v)) s"
  using case_switch_unsupported [of v] by (simp add: NotEmpty_def fmt_T_def)

lemma Empty_unsupported:
  "type_of v \<notin> {Tmap Tany Tany, Tslice Tany, Tstring} \<Longrightarrow>
   Empty (Some v) m s
     = abort m (''expected a map, slice or string, got '' @ type_name (type_of v)) s"
  using case_switch_unsupported [of v] by (simp add: Empty_def fmt_T_def)

text \<open>
  On the three types the switches match, \<^verbatim>\<open>map[any]any\<close>, \<^verbatim>\<open>[]any\<close> and \<^verbatim>\<open>string\<close>, the
  two checks are complements.
\<close>

lemma NotEmpty_Empty_complement:
  "type_of v \<in> {Tmap Tany Tany, Tslice Tany, Tstring} \<Longrightarrow>
   passes (NotEmpty (Some v) m s) \<longleftrightarrow> \<not> passes (Empty (Some v) m s)"
  by (cases v) (auto simp: NotEmpty_def Empty_def ifThen_def)

text \<open>
  C3, at the slice \<^verbatim>\<open>[]int{1, 2, 3}\<close> that the README passes to \<^verbatim>\<open>NotEmpty\<close>: the slice is
  not empty, and both \<^verbatim>\<open>NotEmpty\<close> and \<^verbatim>\<open>Empty\<close> panic with the unsupported-type details.
\<close>

theorem NotEmpty_Empty_int_slice:
  "NotEmpty (Some (VSlice Tint [Some (VInt 1), Some (VInt 2), Some (VInt 3)])) ''m'' start
     = Panic ''m: expected a map, slice or string, got []int'' start
   \<and> Empty (Some (VSlice Tint [Some (VInt 1), Some (VInt 2), Some (VInt 3)])) ''m'' start
     = Panic ''m: expected a map, slice or string, got []int'' start"
  by (simp add: NotEmpty_def Empty_def abort_def start_def Sprint_def fmt_T_def)

text \<open>
  C4. A value whose dynamic type is none of \<^verbatim>\<open>map[any]any\<close>, \<^verbatim>\<open>[]any\<close> and \<^verbatim>\<open>string\<close> makes
  both \<^verbatim>\<open>NotEmpty\<close> and \<^verbatim>\<open>Empty\<close> abort with the unsupported-type details, which name the
  type. So does every slice whose element type is not \<^verbatim>\<open>any\<close> and every map whose key or
  element type is not \<^verbatim>\<open>any\<close>, whatever it contains; a call that aborts does not pass.
\<close>

theorem NotEmpty_Empty_other_slices_and_maps:
  "(type_of v \<notin> {Tmap Tany Tany, Tslice Tany, Tstring} \<longrightarrow>
      NotEmpty (Some v) message s
        = abort message (''expected a map, slice or string, got '' @ type_name (type_of v)) s
      \<and> Empty (Some v) message s
        = abort message (''expected a map, slice or string, got '' @ type_name (type_of v)) s)
   \<and> (t \<noteq> Tany \<longrightarrow>
      NotEmpty (Some (VSlice t xs)) message s
        = abort message (''expected a map, slice or string, got []'' @ type_name t) s
      \<and> Empty (Some (VSlice t xs)) message s
        = abort message (''expected a map, slice or string, got []'' @ type_name t) s)
   \<and> (k \<noteq> Tany \<or> e \<noteq> Tany \<longrightarrow>
      NotEmpty (Some (VMap k e kvs)) message s
        = abort message
            (''expected a map, slice or string, got map['' @ type_name k @ '']'' @ type_name e) s
      \<and> Empty (Some (VMap k e kvs)) message s
        = abort message
            (''expected a map, slice or string, got map['' @ type_name k @ '']'' @ type_name e) s)
   \<and> \<not> passes (abort message details s)"
  using NotEmpty_unsupported [of v message s] Empty_unsupported [of v message s]
    NotEmpty_unsupported [of "VSlice t xs" message s] Empty_unsupported [of "VSlice t xs" message s]
    NotEmpty_unsupported [of "VMap k e kvs" message s]
    Empty_unsupported [of "VMap k e kvs" message s]
  by auto

text \<open>
  C4 at \<^verbatim>\<open>[]int\<close> and \<^verbatim>\<open>map[string]int\<close>, empty and not: the outcome is the same panic.
\<close>

theorem NotEmpty_Empty_other_slices_and_maps_witness:
  "Tint \<noteq> Tany \<and> Tstring \<noteq> Tany
   \<and> NotEmpty (Some (VSlice Tint [Some (VInt 1)])) ''m'' start
       = Panic ''m: expected a map, slice or string, got []int'' start
   \<and> Empty (Some (VSlice Tint [])) ''m'' start
       = Panic ''m: expected a map, slice or string, got []int'' start
   \<and> NotEmpty (Some (VMap Tstring Tint (Some [(Some (VString ''a''), Some (VInt 1))]))) ''m''
         start
       = Panic ''m: expected a map, slice or string, got map[string]int'' start
   \<and> Empty (Some (VMap Tstring Tint (Some []))) ''m'' start
       = Panic ''m: expected a map, slice or string, got map[string]int'' start"
  using NotEmpty_Empty_other_slices_and_maps
      [of "VSlice Tint [Some (VInt 1)]" "''m''" start Tint "[Some (VInt 1)]" Tstring Tint
          "Some [(Some (VString ''a''), Some (VInt 1))]"]
    NotEmpty_Empty_other_slices_and_maps
      [of "VSlice Tint []" "''m''" start Tint "[]" Tstring Tint "Some []"]
  by (simp add: abort_def start_def Sprint_def)

section \<open>Numeric comparisons\<close>

text \<open>At an integer type, a linear order, each comparator passes exactly as named.\<close>

lemma GreaterThan_linorder:
  fixes v :: "'n::{linorder,zero}"
  shows "passes (GreaterThan fmt_v v t m s) \<longleftrightarrow> v > t"
  by (auto simp: GreaterThan_def ifThen_def)

lemma LessThan_linorder:
  fixes v :: "'n::{linorder,zero}"
  shows "passes (LessThan fmt_v v t m s) \<longleftrightarrow> v < t"
  by (auto simp: LessThan_def ifThen_def)

lemma GreaterThanOrEqual_linorder:
  fixes v :: "'n::{linorder,zero}"
  shows "passes (GreaterThanOrEqual fmt_v v t m s) \<longleftrightarrow> v \<ge> t"
  by (auto simp: GreaterThanOrEqual_def ifThen_def)

lemma LessThanOrEqual_linorder:
  fixes v :: "'n::{linorder,zero}"
  shows "passes (LessThanOrEqual fmt_v v t m s) \<longleftrightarrow> v \<le> t"
  by (auto simp: LessThanOrEqual_def ifThen_def)

lemma comparators_boundary_linorder:
  fixes v :: "'n::{linorder,zero}"
  shows "\<not> passes (GreaterThan fmt_v v v m s)" "\<not> passes (LessThan fmt_v v v m s)"
    "passes (GreaterThanOrEqual fmt_v v v m s)" "passes (LessThanOrEqual fmt_v v v m s)"
  by (simp_all add: GreaterThan_linorder LessThan_linorder GreaterThanOrEqual_linorder
      LessThanOrEqual_linorder)

text \<open>So does it at \<^verbatim>\<open>float64\<close>, as long as neither operand is NaN.\<close>

lemma float64_not_less_eq:
  "x \<noteq> NaN \<Longrightarrow> y \<noteq> NaN \<Longrightarrow> \<not> float64_less_eq x y \<longleftrightarrow> float64_less y x"
  by (cases x; cases y) auto

lemma float64_not_less:
  "x \<noteq> NaN \<Longrightarrow> y \<noteq> NaN \<Longrightarrow> \<not> float64_less x y \<longleftrightarrow> float64_less_eq y x"
  by (cases x; cases y) auto

lemma comparators_float64:
  fixes v t :: float64
  assumes "v \<noteq> NaN" "t \<noteq> NaN"
  shows "passes (GreaterThan fmt_v v t m s) \<longleftrightarrow> v > t"
    and "passes (LessThan fmt_v v t m s) \<longleftrightarrow> v < t"
    and "passes (GreaterThanOrEqual fmt_v v t m s) \<longleftrightarrow> v \<ge> t"
    and "passes (LessThanOrEqual fmt_v v t m s) \<longleftrightarrow> v \<le> t"
  using assms float64_not_less_eq [of v t] float64_not_less [of v t]
    float64_not_less_eq [of t v] float64_not_less [of t v]
  by (auto simp: GreaterThan_def LessThan_def GreaterThanOrEqual_def LessThanOrEqual_def
      ifThen_def less_float64_def less_eq_float64_def)

text \<open>
  C5, at the \<^verbatim>\<open>float64\<close> value NaN against the threshold 0: each comparator tests the
  opposite operator, which is false as well, so all four return, although NaN is neither
  greater than, less than, at least nor at most 0.
\<close>

theorem comparators_NaN:
  "GreaterThan fmt_v NaN (Finite 0) ''m'' s = Return s \<and> \<not> NaN > Finite 0
   \<and> LessThan fmt_v NaN (Finite 0) ''m'' s = Return s \<and> \<not> NaN < Finite 0
   \<and> GreaterThanOrEqual fmt_v NaN (Finite 0) ''m'' s = Return s \<and> \<not> NaN \<ge> Finite 0
   \<and> LessThanOrEqual fmt_v NaN (Finite 0) ''m'' s = Return s \<and> \<not> NaN \<le> Finite 0"
  by (simp add: GreaterThan_def LessThan_def GreaterThanOrEqual_def LessThanOrEqual_def
      less_float64_def less_eq_float64_def)

section \<open>Pointers\<close>

text \<open>
  C6, as amended. When either pointer is nil, \<^verbatim>\<open>PointsToSame\<close> and \<^verbatim>\<open>PointsToNotSame\<close> both
  abort, with the same details, and never reach the dereference. When neither is nil and
  \<^verbatim>\<open>==\<close> on the pointees has a result, \<^verbatim>\<open>PointsToSame\<close> aborts exactly when the result is
  false and \<^verbatim>\<open>PointsToNotSame\<close> exactly when it is true, with details that print both
  pointees, and otherwise they return in the state they were entered in. When neither is
  nil and \<^verbatim>\<open>==\<close> on the pointees panics, both checks panic with that runtime error, in the
  state they were entered in. A call that aborts does not pass.
\<close>

theorem PointsTo_outcomes:
  "(a = None \<or> b = None \<longrightarrow>
      PointsToSame eq mem fmt_v a b message s
        = abort message ''expected non-nil pointers, got nil'' s
      \<and> PointsToNotSame eq mem fmt_v a b message s
        = abort message ''expected non-nil pointers, got nil'' s)
   \<and> (a = Some p \<and> b = Some q \<and> eq (mem p) (mem q) = Inr same \<longrightarrow>
      PointsToSame eq mem fmt_v a b message s
        = (if \<not> same
           then abort message
                  (''expected pointers to point to the same value, got ''
                     @ fmt_v (mem p) @ '' and '' @ fmt_v (mem q)) s
           else Return s)
      \<and> PointsToNotSame eq mem fmt_v a b message s
        = (if same
           then abort message
                  (''expected pointers to point to different values, got ''
                     @ fmt_v (mem p) @ '' and '' @ fmt_v (mem q)) s
           else Return s))
   \<and> (a = Some p \<and> b = Some q \<and> eq (mem p) (mem q) = Inl err \<longrightarrow>
      PointsToSame eq mem fmt_v a b message s = Panic err s
      \<and> PointsToNotSame eq mem fmt_v a b message s = Panic err s)
   \<and> \<not> passes (abort message details s)"
  by (auto simp: PointsToSame_def PointsToNotSame_def)

text \<open>
  The amended C6 in a memory of integers where variable 1 holds 42 and every other
  variable holds 7 (a nil pointer, two pointers to different values, two pointers to
  equal values), and in a memory of interface values that hold slices.
\<close>

theorem PointsTo_outcomes_witness:
  "PointsToSame eq_int cells show_int None (Some 1) ''m'' start
     = Panic ''m: expected non-nil pointers, got nil'' start
   \<and> PointsToNotSame eq_int cells show_int None (Some 1) ''m'' start
     = Panic ''m: expected non-nil pointers, got nil'' start
   \<and> PointsToSame eq_int cells show_int (Some 1) (Some 2) ''m'' start
     = Panic ''m: expected pointers to point to the same value, got 42 and 7'' start
   \<and> PointsToNotSame eq_int cells show_int (Some 1) (Some 2) ''m'' start = Return start
   \<and> PointsToSame eq_int cells show_int (Some 2) (Some 3) ''m'' start = Return start
   \<and> PointsToNotSame eq_int cells show_int (Some 2) (Some 3) ''m'' start
     = Panic ''m: expected pointers to point to different values, got 7 and 7'' start
   \<and> PointsToSame eq_boxed boxes show_boxed (Some 1) (Some 1) ''m'' start
     = Panic ''runtime error: comparing uncomparable type []int'' start"
  using PointsTo_outcomes [of None "Some 1" eq_int cells show_int "''m''" start]
    PointsTo_outcomes [of "Some 1" "Some 2" eq_int cells show_int "''m''" start 1 2 False]
    PointsTo_outcomes [of "Some 2" "Some 3" eq_int cells show_int "''m''" start 2 3 True]
    PointsTo_outcomes [of "Some 1" "Some 1" eq_boxed boxes show_boxed "''m''" start 1 1 _
      "''runtime error: comparing uncomparable type []int''"]
  by (simp add: abort_def start_def Sprint_def show_int_def cells_def eq_int_def boxes_def)

text \<open>
  C6 as stated fails at two pointers, neither nil, to variables of type \<^verbatim>\<open>any\<close> that
  hold slices: \<^verbatim>\<open>PointsToSame\<close> and \<^verbatim>\<open>PointsToNotSame\<close> both fail, so the one does not fail
  exactly when the other passes, and the payload is the runtime's, with no details and no
  pointee in it.
\<close>

theorem PointsTo_uncomparable:
  "PointsToSame eq_boxed boxes show_boxed (Some 1) (Some 2) ''m'' start
     = Panic ''runtime error: comparing uncomparable type []int'' start
   \<and> PointsToNotSame eq_boxed boxes show_boxed (Some 1) (Some 2) ''m'' start
     = Panic ''runtime error: comparing uncomparable type []int'' start"
  by (simp add: PointsToSame_def PointsToNotSame_def boxes_def)

text \<open>
  At \<^verbatim>\<open>float64\<close> a pointer to NaN does not point to the same value as itself.
\<close>

lemma PointsToSame_NaN:
  "mem p = NaN \<Longrightarrow>
   PointsToSame eq_float64 mem fmt_v (Some p) (Some p) m s
     = abort m
         (''expected pointers to point to the same value, got ''
            @ fmt_v NaN @ '' and '' @ fmt_v NaN) s"
  by (simp add: PointsToSame_def eq_float64_def)

section \<open>Membership\<close>

text \<open>
  The search finds the value when some element is \<^verbatim>\<open>==\<close> to it and every comparison
  before that one is false; it panics when a comparison panics and every comparison
  before that one is false.
\<close>

lemma slices_Contains_found:
  "slices_Contains eq xs v = Inr True \<longleftrightarrow>
     (\<exists>pre x post. xs = pre @ x # post \<and> eq v x = Inr True
        \<and> (\<forall>y\<in>set pre. eq v y = Inr False))"
proof (induction xs)
  case Nil
  then show ?case by simp
next
  case (Cons a xs)
  show ?case
  proof (cases "eq v a")
    case (Inl err)
    then have "\<not> (\<exists>pre x post. a # xs = pre @ x # post \<and> eq v x = Inr True
        \<and> (\<forall>y\<in>set pre. eq v y = Inr False))"
      by (auto simp: Cons_eq_append_conv)
    with Inl show ?thesis by simp
  next
    case (Inr same)
    show ?thesis
    proof (cases same)
      case True
      with Inr have "a # xs = [] @ a # xs \<and> eq v a = Inr True
          \<and> (\<forall>y\<in>set []. eq v y = Inr False)"
        by simp
      then have "\<exists>pre x post. a # xs = pre @ x # post \<and> eq v x = Inr True
          \<and> (\<forall>y\<in>set pre. eq v y = Inr False)"
        by blast
      with Inr True show ?thesis by simp
    next
      case False
      have "(\<exists>pre x post. a # xs = pre @ x # post \<and> eq v x = Inr True
            \<and> (\<forall>y\<in>set pre. eq v y = Inr False))
          \<longleftrightarrow> (\<exists>pre x post. xs = pre @ x # post \<and> eq v x = Inr True
            \<and> (\<forall>y\<in>set pre. eq v y = Inr False))"
      proof
        assume "\<exists>pre x post. a # xs = pre @ x # post \<and> eq v x = Inr True
            \<and> (\<forall>y\<in>set pre. eq v y = Inr False)"
        then obtain pre x post where h: "a # xs = pre @ x # post" "eq v x = Inr True"
          "\<forall>y\<in>set pre. eq v y = Inr False"
          by blast
        with Inr False obtain pre' where "pre = a # pre'"
          by (cases pre) auto
        with h show "\<exists>pre x post. xs = pre @ x # post \<and> eq v x = Inr True
            \<and> (\<forall>y\<in>set pre. eq v y = Inr False)"
          by auto
      next
        assume "\<exists>pre x post. xs = pre @ x # post \<and> eq v x = Inr True
            \<and> (\<forall>y\<in>set pre. eq v y = Inr False)"
        then obtain pre x post where h: "xs = pre @ x # post" "eq v x = Inr True"
          "\<forall>y\<in>set pre. eq v y = Inr False"
          by blast
        with Inr False have "a # xs = (a # pre) @ x # post \<and> eq v x = Inr True
            \<and> (\<forall>y\<in>set (a # pre). eq v y = Inr False)"
          by simp
        then show "\<exists>pre x post. a # xs = pre @ x # post \<and> eq v x = Inr True
            \<and> (\<forall>y\<in>set pre. eq v y = Inr False)"
          by blast
      qed
      with Inr False Cons.IH show ?thesis by simp
    qed
  qed
qed

text \<open>When no comparison panics, the search finds the value iff some element is \<^verbatim>\<open>==\<close> to it.\<close>

lemma slices_Contains_total:
  "\<forall>x\<in>set xs. \<exists>same. eq v x = Inr same \<Longrightarrow>
   slices_Contains eq xs v = Inr (\<exists>x\<in>set xs. eq v x = Inr True)"
  by (induction xs) auto

text \<open>
  C7, as amended. \<^verbatim>\<open>Contains\<close> and \<^verbatim>\<open>SliceHas\<close> pass on the same inputs: those where the
  search \<^verbatim>\<open>slices.Contains\<close> finds the value, that is where some element is \<^verbatim>\<open>==\<close> to the
  value and every comparison before it is false; then both return in the state they were
  entered in. Where the search ends without finding the value both abort with the
  caller's message, and the details differ in wording only (``to contain'' against ``to
  have''). Where a comparison panics both panic with that runtime error, in the state
  they were entered in. When no comparison panics, both pass iff some element of the
  slice is \<^verbatim>\<open>==\<close> to the value.
\<close>

theorem Contains_SliceHas_agree:
  "(passes (Contains eq fmt_v slice v message s)
      \<longleftrightarrow> passes (SliceHas eq fmt_v slice v message s))
   \<and> (passes (Contains eq fmt_v slice v message s)
      \<longleftrightarrow> (\<exists>pre x post. slice = pre @ x # post \<and> eq v x = Inr True
            \<and> (\<forall>y\<in>set pre. eq v y = Inr False)))
   \<and> (slices_Contains eq slice v = Inr True \<longrightarrow>
        Contains eq fmt_v slice v message s = Return s
        \<and> SliceHas eq fmt_v slice v message s = Return s)
   \<and> (slices_Contains eq slice v = Inr False \<longrightarrow>
        Contains eq fmt_v slice v message s
          = abort message (''expected slice to contain '' @ fmt_v v @ '', but it does not'') s
        \<and> SliceHas eq fmt_v slice v message s
          = abort message (''expected slice to have '' @ fmt_v v @ '', but it does not'') s)
   \<and> (slices_Contains eq slice v = Inl err \<longrightarrow>
        Contains eq fmt_v slice v message s = Panic err s
        \<and> SliceHas eq fmt_v slice v message s = Panic err s)
   \<and> ((\<forall>x\<in>set slice. \<exists>same. eq v x = Inr same) \<longrightarrow>
        (passes (Contains eq fmt_v slice v message s) \<longleftrightarrow> (\<exists>x\<in>set slice. eq v x = Inr True))
        \<and> (passes (SliceHas eq fmt_v slice v message s)
            \<longleftrightarrow> (\<exists>x\<in>set slice. eq v x = Inr True)))"
proof -
  have c: "passes (Contains eq fmt_v slice v message s)
      \<longleftrightarrow> slices_Contains eq slice v = Inr True"
    by (cases "slices_Contains eq slice v") (auto simp: Contains_def)
  have h: "passes (SliceHas eq fmt_v slice v message s)
      \<longleftrightarrow> slices_Contains eq slice v = Inr True"
    by (cases "slices_Contains eq slice v") (auto simp: SliceHas_def ifThen_def)
  have t: "\<forall>x\<in>set slice. \<exists>same. eq v x = Inr same \<Longrightarrow>
      slices_Contains eq slice v = Inr True \<longleftrightarrow> (\<exists>x\<in>set slice. eq v x = Inr True)"
    using slices_Contains_total [of slice eq v] by simp
  have found: "slices_Contains eq slice v = Inr True \<Longrightarrow>
      Contains eq fmt_v slice v message s = Return s
      \<and> SliceHas eq fmt_v slice v message s = Return s"
    by (simp add: Contains_def SliceHas_def)
  have missing: "slices_Contains eq slice v = Inr False \<Longrightarrow>
      Contains eq fmt_v slice v message s
        = abort message (''expected slice to contain '' @ fmt_v v @ '', but it does not'') s
      \<and> SliceHas eq fmt_v slice v message s
        = abort message (''expected slice to have '' @ fmt_v v @ '', but it does not'') s"
    by (simp add: Contains_def SliceHas_def)
  have panics: "slices_Contains eq slice v = Inl err \<Longrightarrow>
      Contains eq fmt_v slice v message s = Panic err s
      \<and> SliceHas eq fmt_v slice v message s = Panic err s"
    by (simp add: Contains_def SliceHas_def)
  from c h have same: "passes (Contains eq fmt_v slice v message s)
      \<longleftrightarrow> passes (SliceHas eq fmt_v slice v message s)"
    by simp
  from c have search: "passes (Contains eq fmt_v slice v message s)
      \<longleftrightarrow> (\<exists>pre x post. slice = pre @ x # post \<and> eq v x = Inr True
            \<and> (\<forall>y\<in>set pre. eq v y = Inr False))"
    by (simp only: slices_Contains_found)
  from c h t have total: "(\<forall>x\<in>set slice. \<exists>same. eq v x = Inr same) \<longrightarrow>
      (passes (Contains eq fmt_v slice v message s) \<longleftrightarrow> (\<exists>x\<in>set slice. eq v x = Inr True))
      \<and> (passes (SliceHas eq fmt_v slice v message s)
          \<longleftrightarrow> (\<exists>x\<in>set slice. eq v x = Inr True))"
    by blast
  from same search found missing panics total show ?thesis
    by blast
qed

text \<open>
  The amended C7 at a slice of integers that holds the value, at one that does not, and
  at a slice of interface values where the comparison panics.
\<close>

theorem Contains_SliceHas_agree_witness:
  "Contains eq_int show_int [7, 42] 42 ''m'' start = Return start
   \<and> SliceHas eq_int show_int [7, 42] 42 ''m'' start = Return start
   \<and> Contains eq_int show_int [42] 7 ''m'' start
       = Panic ''m: expected slice to contain 7, but it does not'' start
   \<and> SliceHas eq_int show_int [42] 7 ''m'' start
       = Panic ''m: expected slice to have 7, but it does not'' start
   \<and> Contains eq_boxed show_boxed [Number 7, Numbers [1]] (Numbers [1]) ''m'' start
       = Panic ''runtime error: comparing uncomparable type []int'' start
   \<and> SliceHas eq_boxed show_boxed [Number 7, Numbers [1]] (Numbers [1]) ''m'' start
       = Panic ''runtime error: comparing uncomparable type []int'' start"
  using Contains_SliceHas_agree [of eq_int show_int "[7, 42]" 42 "''m''" start]
    Contains_SliceHas_agree [of eq_int show_int "[42]" 7 "''m''" start]
    Contains_SliceHas_agree [of eq_boxed show_boxed "[Number 7, Numbers [1]]" "Numbers [1]"
      "''m''" start "''runtime error: comparing uncomparable type []int''"]
  by (simp add: abort_def start_def Sprint_def show_int_def eq_int_def)

text \<open>
  C7 as stated fails at the slice \<^verbatim>\<open>[]any{[]int{1}}\<close> and the value \<^verbatim>\<open>[]int{1}\<close>: the value
  is an element of the slice, yet neither check passes, and the two outcomes do not
  differ in the wording of any details: both are the runtime's panic.
\<close>

theorem Contains_SliceHas_uncomparable:
  "Numbers [1] \<in> set [Numbers [1]]
   \<and> Contains eq_boxed show_boxed [Numbers [1]] (Numbers [1]) ''m'' start
       = Panic ''runtime error: comparing uncomparable type []int'' start
   \<and> SliceHas eq_boxed show_boxed [Numbers [1]] (Numbers [1]) ''m'' start
       = Panic ''runtime error: comparing uncomparable type []int'' start"
  by (simp add: Contains_def SliceHas_def)

text \<open>At \<^verbatim>\<open>float64\<close> neither check finds NaN in a slice that holds it.\<close>

lemma Contains_SliceHas_NaN:
  "Contains eq_float64 fmt_v [NaN] NaN m s
     = abort m (''expected slice to contain '' @ fmt_v NaN @ '', but it does not'') s
   \<and> SliceHas eq_float64 fmt_v [NaN] NaN m s
     = abort m (''expected slice to have '' @ fmt_v NaN @ '', but it does not'') s"
  by (simp add: Contains_def SliceHas_def eq_float64_def)


section \<open>Files\<close>

text \<open>
  C10. \<^verbatim>\<open>FileExists\<close> fails only when \<^verbatim>\<open>os.Stat\<close> reports the does-not-exist error, and then
  it aborts. When \<^verbatim>\<open>os.Stat\<close> reports any other error, \<^verbatim>\<open>FileExists\<close> returns, in the state
  it was entered in.
\<close>

theorem FileExists_only_not_exist:
  "(\<not> passes (FileExists os_Stat path message s) \<longrightarrow> os_Stat (world s) path = Inl ErrNotExist)
   \<and> (os_Stat (world s) path = Inl ErrNotExist \<longrightarrow>
        FileExists os_Stat path message s
          = abort message (''expected file '' @ path @ '' to exist, but it does not'') s)
   \<and> (os_Stat (world s) path = Inl err \<and> err \<noteq> ErrNotExist \<longrightarrow>
        FileExists os_Stat path message s = Return s)"
  by (cases "os_Stat (world s) path") (auto simp: FileExists_def os_IsNotExist_def ifThen_def)

text \<open>
  C10 in a file system where \<^verbatim>\<open>/root/secret\<close> may not be examined and nothing else
  exists: the check passes on the first path and panics on a missing one.
\<close>

theorem FileExists_only_not_exist_witness:
  "root_only (world start) ''/root/secret'' = Inl ErrPermission \<and> ErrPermission \<noteq> ErrNotExist
   \<and> FileExists root_only ''/root/secret'' ''m'' start = Return start
   \<and> root_only (world start) ''/missing'' = Inl ErrNotExist
   \<and> \<not> passes (FileExists root_only ''/missing'' ''m'' start)
   \<and> FileExists root_only ''/missing'' ''m'' start
     = Panic ''m: expected file /missing to exist, but it does not'' start"
  using FileExists_only_not_exist [of root_only "''/root/secret''" "''m''" start ErrPermission]
    FileExists_only_not_exist [of root_only "''/missing''" "''m''" start]
  by (simp add: abort_def start_def Sprint_def root_only_def)

section \<open>Every check, and the registry over a run\<close>

lemma enact_decide:
  "enact m (decide ok details) s = (if ok then Return s else abort m details s)"
  by (simp add: decide_def)

lemma enact_deciding: "enact m (deciding r k) s = evaluate r (\<lambda>x. enact m (k x)) s"
  by (cases r) simp_all

lemma NotNil_enact: "NotNil v m s = enact m (condition rt (world s) (Call_NotNil v m)) s"
  by (cases v) (simp_all add: NotNil_nil_interface NotNil_Some enact_decide)

lemma measured_cases:
  "measured v = None \<Longrightarrow>
   case_map_any_any v = None \<and> case_slice_any v = None \<and> case_string v = None"
  "measured v = Some (kind, n) \<Longrightarrow>
   (case_map_any_any v \<noteq> None \<and> kind = ''map'' \<and> n = len_map (the (case_map_any_any v)))
   \<or> (case_map_any_any v = None \<and> case_slice_any v \<noteq> None \<and> kind = ''slice''
       \<and> n = length (the (case_slice_any v)))
   \<or> (case_map_any_any v = None \<and> case_slice_any v = None \<and> case_string v \<noteq> None
       \<and> kind = ''string'' \<and> n = length (the (case_string v)))"
  by (induction v rule: measured.induct; auto split: if_splits)+

lemma NotEmpty_enact: "NotEmpty v m s = enact m (condition rt (world s) (Call_NotEmpty v m)) s"
proof (cases "measured v")
  case None
  with measured_cases(1) [of v] show ?thesis by (simp add: NotEmpty_def)
next
  case (Some kn)
  obtain kind n where kn: "kn = (kind, n)" by (cases kn)
  with Some measured_cases(2) [of v kind n] show ?thesis
    by (auto simp: NotEmpty_def enact_decide)
qed

lemma Empty_enact: "Empty v m s = enact m (condition rt (world s) (Call_Empty v m)) s"
proof (cases "measured v")
  case None
  with measured_cases(1) [of v] show ?thesis by (simp add: Empty_def)
next
  case (Some kn)
  obtain kind n where kn: "kn = (kind, n)" by (cases kn)
  with Some measured_cases(2) [of v kind n] show ?thesis
    by (auto simp: Empty_def enact_decide)
qed

lemma FileExists_enact:
  "FileExists (stat rt) path m s = enact m (condition rt (world s) (Call_FileExists path m)) s"
  by (cases "stat rt (world s) path") (simp_all add: FileExists_def os_IsNotExist_def enact_decide)

lemma DirExists_enact:
  "DirExists (stat rt) path m s = enact m (condition rt (world s) (Call_DirExists path m)) s"
  by (cases "stat rt (world s) path") (simp_all add: DirExists_def os_IsNotExist_def enact_decide)

text \<open>
  In the pointer checks the dereference of a nil pointer follows the call of \<^verbatim>\<open>abort\<close>;
  it is never reached, because \<^verbatim>\<open>abort\<close> does not return.
\<close>

lemma PointsToSame_enact:
  "PointsToSame (eq_comparable rt) (memory rt) (fmt_comparable rt) a b m s
     = enact m (condition rt (world s) (Call_PointsToSame a b m)) s"
proof (cases a)
  case None
  then show ?thesis by (simp add: PointsToSame_def)
next
  case (Some p)
  show ?thesis
  proof (cases b)
    case None
    with Some show ?thesis by (simp add: PointsToSame_def)
  next
    case q: (Some q)
    with Some show ?thesis
      by (cases "eq_comparable rt (memory rt p) (memory rt q)")
        (simp_all add: PointsToSame_def enact_decide)
  qed
qed

lemma PointsToNotSame_enact:
  "PointsToNotSame (eq_comparable rt) (memory rt) (fmt_comparable rt) a b m s
     = enact m (condition rt (world s) (Call_PointsToNotSame a b m)) s"
proof (cases a)
  case None
  then show ?thesis by (simp add: PointsToNotSame_def)
next
  case (Some p)
  show ?thesis
  proof (cases b)
    case None
    with Some show ?thesis by (simp add: PointsToNotSame_def)
  next
    case q: (Some q)
    with Some show ?thesis
      by (cases "eq_comparable rt (memory rt p) (memory rt q)")
        (simp_all add: PointsToNotSame_def enact_decide)
  qed
qed

lemma Equal_enact:
  "Equal (eq_comparable rt) (fmt_comparable rt) x y m s
     = enact m (condition rt (world s) (Call_Equal x y m)) s"
  by (cases "eq_comparable rt x y") (simp_all add: Equal_def enact_decide)

lemma NotEqual_enact:
  "NotEqual (eq_comparable rt) (fmt_comparable rt) x y m s
     = enact m (condition rt (world s) (Call_NotEqual x y m)) s"
  by (cases "eq_comparable rt x y") (simp_all add: NotEqual_def enact_decide)

lemma Contains_enact:
  "Contains (eq_comparable rt) (fmt_comparable rt) xs v m s
     = enact m (condition rt (world s) (Call_Contains xs v m)) s"
  by (cases "slices_Contains (eq_comparable rt) xs v") (simp_all add: Contains_def enact_decide)

lemma NotContains_enact:
  "NotContains (eq_comparable rt) (fmt_comparable rt) xs v m s
     = enact m (condition rt (world s) (Call_NotContains xs v m)) s"
  by (cases "slices_Contains (eq_comparable rt) xs v")
    (simp_all add: NotContains_def enact_decide)

lemma SliceHas_enact:
  "SliceHas (eq_comparable rt) (fmt_comparable rt) xs v m s
     = enact m (condition rt (world s) (Call_SliceHas xs v m)) s"
  by (cases "slices_Contains (eq_comparable rt) xs v") (simp_all add: SliceHas_def enact_decide)

lemma SliceNotHas_enact:
  "SliceNotHas (eq_comparable rt) (fmt_comparable rt) xs v m s
     = enact m (condition rt (world s) (Call_SliceNotHas xs v m)) s"
  by (cases "slices_Contains (eq_comparable rt) xs v")
    (simp_all add: SliceNotHas_def enact_decide)

lemma MapHas_enact:
  "MapHas (hash_key rt) (eq_key rt) (fmt_key rt) mp k m s
     = enact m (condition rt (world s) (Call_MapHas mp k m)) s"
  by (cases "mapaccess (hash_key rt) (eq_key rt) mp k") (auto simp: MapHas_def enact_decide)

lemma MapNotHas_enact:
  "MapNotHas (hash_key rt) (eq_key rt) (fmt_key rt) mp k m s
     = enact m (condition rt (world s) (Call_MapNotHas mp k m)) s"
  by (cases "mapaccess (hash_key rt) (eq_key rt) mp k")
    (auto simp: MapNotHas_def enact_decide)

text \<open>
  At \<^verbatim>\<open>float64\<close> keys, \<^verbatim>\<open>MapHas\<close> does not find the key NaN in a map that holds an entry
  for it.
\<close>

lemma MapHas_NaN:
  "MapHas (\<lambda>k. None) eq_float64 fmt_v (Some [(NaN, x)]) NaN m s
     = abort m (''expected map to have key '' @ fmt_v NaN @ '', but it does not'') s"
  by (simp add: MapHas_def mapaccess_def eq_float64_def)

text \<open>Every check does what its condition says.\<close>

lemma run_enact: "run rt c s = enact (message_of c) (condition rt (world s) c) s"
proof (cases c)
  case (Call_NotNil v m)
  then show ?thesis using NotNil_enact [of v m s rt] by simp
next
  case (Call_NoError err m)
  then show ?thesis by (cases err) (simp_all add: NoError_def)
next
  case (Call_NotEqual x y m)
  then show ?thesis using NotEqual_enact [of rt x y m s] by simp
next
  case (Call_Equal x y m)
  then show ?thesis using Equal_enact [of rt x y m s] by simp
next
  case (Call_NotEmpty v m)
  then show ?thesis using NotEmpty_enact [of v m s rt] by simp
next
  case (Call_Empty v m)
  then show ?thesis using Empty_enact [of v m s rt] by simp
next
  case (Call_Contains xs v m)
  then show ?thesis using Contains_enact [of rt xs v m s] by simp
next
  case (Call_NotContains xs v m)
  then show ?thesis using NotContains_enact [of rt xs v m s] by simp
next
  case (Call_FileExists path m)
  then show ?thesis using FileExists_enact [of rt path m s] by simp
next
  case (Call_DirExists path m)
  then show ?thesis using DirExists_enact [of rt path m s] by simp
next
  case (Call_PointsToSame a b m)
  then show ?thesis using PointsToSame_enact [of rt a b m s] by simp
next
  case (Call_PointsToNotSame a b m)
  then show ?thesis using PointsToNotSame_enact [of rt a b m s] by simp
next
  case (Call_SliceHas xs v m)
  then show ?thesis using SliceHas_enact [of rt xs v m s] by simp
next
  case (Call_SliceNotHas xs v m)
  then show ?thesis using SliceNotHas_enact [of rt xs v m s] by simp
next
  case (Call_MapHas mp k m)
  then show ?thesis using MapHas_enact [of rt mp k m s] by simp
next
  case (Call_MapNotHas mp k m)
  then show ?thesis using MapNotHas_enact [of rt mp k m s] by simp
qed (auto simp: enact_decide Error_def True_check_def False_check_def NotZero_def
    GreaterThan_def LessThan_def GreaterThanOrEqual_def LessThanOrEqual_def IsNil_def
    IsNotNil_def TypeOf_def TypeOfNot_def MapNotEmpty_def MapEmpty_def IsEmpty_def)


lemma enact_registry: "failureHandlers (final (enact m v s)) = failureHandlers s"
  by (cases v) (simp_all add: abort_registry)

lemma run_registry: "failureHandlers (final (run rt c s)) = failureHandlers s"
  by (simp add: run_enact enact_registry)

lemma perform_prefix: "prefix (failureHandlers s) (failureHandlers (final (perform rt x s)))"
  by (cases x) (simp_all add: RegisterFailureHandler_def run_registry)

lemma lifetime_prefix: "prefix (failureHandlers s) (failureHandlers (lifetime rt xs s))"
proof (induction xs arbitrary: s)
  case Nil
  show ?case by simp
next
  case (Cons x xs)
  have "prefix (failureHandlers s) (failureHandlers (final (perform rt x s)))"
    by (rule perform_prefix)
  also have "prefix \<dots> (failureHandlers (lifetime rt xs (final (perform rt x s))))"
    by (rule Cons.IH)
  finally show ?case by simp
qed




text \<open>
  C9. \<^verbatim>\<open>RegisterFailureHandler\<close> always returns, and the registry is then the old registry
  with the new handler appended. A check, whether it returns or panics, leaves the
  registry as it was. So over any sequence of operations of the package the registry at
  the start is an initial segment of the registry at the end: nothing is removed,
  reordered or cleared.
\<close>

theorem registry_append_only:
  "RegisterFailureHandler f s = Return (s\<lparr>failureHandlers := failureHandlers s @ [f]\<rparr>)
   \<and> failureHandlers (final (perform rt (Register f) s)) = failureHandlers s @ [f]
   \<and> failureHandlers (final (perform rt (Check c) s)) = failureHandlers s
   \<and> prefix (failureHandlers s) (failureHandlers (lifetime rt ops s))"
  by (simp add: RegisterFailureHandler_def run_registry lifetime_prefix)

end
